theory Spec2Isabelle
  imports Main
begin

section \<open>The call engine of callApi.ts\<close>

text \<open>
  A shallow embedding of the class \<open>CallApi\<close> (src/callApi/core/callApi.ts).
  The object is a record of its fields; every method is a function that takes the
  record and returns it updated. Private members lose their leading underscore
  (\<open>_checkAppendView\<close> is \<open>checkAppendView\<close>), since a name cannot start with one.

  Everything the engine does to the outside (an event given to the listeners, a call
  into the messaging manager, the media client, a track, the DOM or a timer) is appended
  to the field \<open>trace\<close>, together with what the engine holds at that moment:
  \<open>state\<close>, the call id \<open>getCallId()\<close> returns, whether a timer handle is held,
  \<open>remoteUserId\<close>, \<open>callType\<close>, the call info, and whether the frame condition of
  the view-attach check holds. The emitter dispatches synchronously, so this is the
  engine a listener runs against at that point, and the order of the writes and the
  effects of a method can be read off the trace.

  User ids are integers. The code converts an inbound \<open>fromUserId\<close> with
  \<open>Number\<close>; the model takes the id as an integer already, so an id that does not
  parse as a number, or one too large for \<open>Number\<close> to represent exactly, is outside
  the model.
\<close>

subsection \<open>Enumerations of ../types, as callApi.ts uses them\<close>

datatype CallStateType = idle | prepared | calling | connecting | connected

datatype CallStateReason =
    R_none | R_localVideoCall | R_localAudioCall | R_remoteVideoCall | R_remoteAudioCall
  | R_localAccepted | R_remoteAccepted | R_localRejected | R_remoteRejected
  | R_remoteCallBusy | R_localCancel | R_remoteCancel | R_localHangup | R_remoteHangup
  | R_recvRemoteFirstFrame | R_callingTimeout

datatype CallEvent =
    E_onCalling | E_remoteUserRecvCall | E_localAccepted | E_remoteAccepted
  | E_localRejected | E_remoteRejected | E_remoteCallBusy | E_localCancelled
  | E_remoteCancelled | E_localHangup | E_remoteHangup | E_joinRTCStart
  | E_joinRTCSuccessed | E_localJoined | E_remoteJoined | E_localLeft | E_remoteLeft
  | E_publishFirstLocalVideoFrame | E_recvRemoteFirstFrame | E_callingTimeout
  | E_remoteCallingTimeout | E_stateMismatch

datatype CallAction = VideoCall | AudioCall | Accept | Reject | Cancel | Hangup

datatype RejectByInternal = External | Internal

datatype CallType = video | audio

datatype CallErrorEvent = rtcOccurError | sendMessageFail

datatype CallErrorCodeType = normal | rtc | message

datatype mediaType = MediaVideo | MediaAudio

text \<open>The milestones handed to the call-info collector.\<close>

datatype milestone =
    M_start | M_remoteUserRecvCall | M_acceptCall | M_localUserJoinChannel
  | M_remoteUserJoinChannel | M_recvFirstFrame

text \<open>
  The signalling envelope. \<open>m_callId\<close> and \<open>m_remoteUserId\<close> are the fields
  \<open>callId\<close> and \<open>remoteUserId\<close> of \<open>ICallMessage\<close>; an optional field that is
  absent is \<open>None\<close>.
\<close>

record ICallMessage =
  m_callId :: string
  fromUserId :: int
  m_remoteUserId :: int
  fromRoomId :: "string option"
  message_action :: CallAction
  rejectReason :: "string option"
  rejectByInternal :: "RejectByInternal option"
  cancelCallByInternal :: "RejectByInternal option"

text \<open>
  \<open>IPrepareConfig\<close>: every field is optional (the initial value is \<open>{}\<close>). A view
  is an opaque handle of a DOM element. \<open>videoConfig\<close> and \<open>audioConfig\<close> are only
  passed on to the SDK and are left out.
\<close>

type_synonym HTMLElement = string

record IPrepareConfig =
  roomId :: "string option"
  rtcToken :: "string option"
  localView :: "HTMLElement option"
  remoteView :: "HTMLElement option"
  autoAccept :: "bool option"
  callTimeoutMillisecond :: "int option"
  firstFrameWaittingDisabled :: "bool option"

text \<open>A media track, with the SDK's \<open>isPlaying\<close>.\<close>

datatype track = Track (isPlaying: bool)

record ITracks =
  audioTrack :: "track option"
  videoTrack :: "track option"

text \<open>
  The handle held in \<open>_cancelCallTimer\<close>: the closure given to \<open>setTimeout\<close> captures
  \<open>isLocal\<close>, and the delay is \<open>callTimeoutMillisecond\<close>.
\<close>

datatype timer = Timer (timerIsLocal: bool) (timerDelay: int)

datatype eventInfo =
    NoInfo
  | CallPeers int int
  | CancelInfo "RejectByInternal option"
  | RejectInfo "string option"

datatype side = LocalSide | RemoteSide

datatype trackName = LocalAudio | LocalVideo | RemoteAudio | RemoteVideo

text \<open>
  What the engine does to the outside. \<open>CallPeers r f\<close> is the event info
  \<open>{remoteUserId: r, fromUserId: f}\<close>; \<open>AppendChild LocalSide\<close> is
  \<open>localView.appendChild(LOCAL_VIEW_ELEMENT)\<close>; \<open>ClearView\<close> is a view's
  \<open>innerHTML = ""\<close>; \<open>SendMessage uid m\<close> is \<open>sendMessage(uid, encode(m))\<close>.
\<close>

datatype effect =
    CallStateChanged CallStateType CallStateReason "string option" eventInfo
  | CallEventChanged CallEvent
  | CallError CallErrorEvent CallErrorCodeType
  | CallInfoChanged "milestone list"
  | SendMessage int ICallMessage
  | CreateTracks
  | RtcJoin
  | RtcLeave
  | RtcPublish
  | RtcSubscribe mediaType
  | RtcUnsubscribe mediaType
  | AppendChild side
  | ClearView side
  | TrackPlay trackName
  | TrackStop trackName
  | TrackClose trackName
  | SetTimeout bool int
  | ClearTimeout

record observation =
  what :: effect
  seen_state :: CallStateType
  seen_callId :: string
  seen_timer :: bool
  seen_remoteUserId :: int
  seen_callType :: CallType
  seen_callInfo :: "milestone list"
  seen_frameReady :: bool

text \<open>
  The fields of \<open>CallApi\<close>. \<open>userId\<close> is \<open>callConfig.userId\<close>. The classes
  \<open>CallMessage\<close> (./callMessage) and \<open>CallInfo\<close> (./callInfo) are not among the
  sources; what the objects \<open>_callMessage\<close> and \<open>_callInfo\<close> hold is the field
  \<open>callId\<close> and the field \<open>callInfo\<close>.
\<close>

record CallApi =
  userId :: int
  prepareConfig :: IPrepareConfig
  state :: CallStateType
  remoteUserId :: int
  localTracks :: ITracks
  remoteTracks :: ITracks
  callType :: CallType
  callInfo :: "milestone list"
  callId :: string
  rtcJoined :: bool
  receiveRemoteFirstFrameDecoded :: bool
  cancelCallTimer :: "timer option"
  trace :: "observation list"

text \<open>What a method throws.\<close>

datatype error =
    CurrentlyBusy
  | CallFailed CallStateType
  | AcceptFail CallStateType
  | Error string
  | SendMessageError
  | RtcError

text \<open>
  A method either returns or throws; the fields it has written stay written in both
  cases.
\<close>

datatype result = Ok CallApi | Throw error CallApi

fun engine_of :: "result \<Rightarrow> CallApi" where
  "engine_of (Ok s) = s"
| "engine_of (Throw e s) = s"

fun thrown :: "result \<Rightarrow> error option" where
  "thrown (Ok s) = None"
| "thrown (Throw e s) = Some e"

fun andThen :: "result \<Rightarrow> (CallApi \<Rightarrow> result) \<Rightarrow> result" where
  "andThen (Ok s) f = f s"
| "andThen (Throw e s) f = Throw e s"

subsection \<open>Asynchronous methods\<close>

text \<open>
  An \<open>async\<close> method runs synchronously up to its first \<open>await\<close> of an outside
  operation and continues when that operation settles. It is modelled as a function
  giving the engine after the synchronous part and the continuation, which is applied to
  the engine as it is when the operation settles. Whether an outside operation succeeds
  is given by the environment (\<open>outcomes\<close>).

  The interleaving is fixed: the operations a handler has started settle in the order in
  which they were started, before the next input is handled, and a promise that is not
  awaited settles when the handler that made it has finished.
\<close>

record outcomes =
  sendMessageOk :: bool
  leaveOk :: bool
  joinOk :: bool
  createTracksOk :: bool
  publishOk :: bool
  subscribeOk :: bool

type_synonym promise = "CallApi \<Rightarrow> result"

type_synonym async = "CallApi \<Rightarrow> CallApi \<times> promise"

definition await :: "async \<Rightarrow> CallApi \<Rightarrow> result" where
  "await a s = (case a s of (s1, k) \<Rightarrow> k s1)"

text \<open>
  \<open>Promise.all([a, b])\<close>: both synchronous parts run, \<open>a\<close>'s first; both
  continuations run, also when the other one throws; the first error is the one thrown.
\<close>

definition Promise_all :: "async \<Rightarrow> async \<Rightarrow> async" where
  "Promise_all a b s =
     (case a s of (s1, k1) \<Rightarrow>
      case b s1 of (s2, k2) \<Rightarrow>
        (s2, \<lambda>t. case k1 t of
                    Ok u \<Rightarrow> k2 u
                  | Throw e u \<Rightarrow> Throw e (engine_of (k2 u))))"

text \<open>A promise nobody awaits: it settles after \<open>r\<close>, and its error reaches no caller.\<close>

definition detached :: "promise \<Rightarrow> result \<Rightarrow> result" where
  "detached k r =
     (case r of
        Ok t \<Rightarrow> Ok (engine_of (k t))
      | Throw e t \<Rightarrow> Throw e (engine_of (k t)))"

subsection \<open>Emitting\<close>

text \<open>
  The effect \<open>e\<close>, and the engine \<open>s\<close> as it is when \<open>e\<close> happens.
  \<open>seen_frameReady\<close> is the frame condition of \<open>_checkAppendView\<close>:
  \<open>firstFrameWaittingDisabled\<close> is true or the first remote frame has been decoded.
\<close>

definition observe :: "effect \<Rightarrow> CallApi \<Rightarrow> observation" where
  "observe e s =
     \<lparr>what = e, seen_state = state s, seen_callId = callId s,
      seen_timer = (cancelCallTimer s \<noteq> None),
      seen_remoteUserId = remoteUserId s, seen_callType = callType s,
      seen_callInfo = callInfo s,
      seen_frameReady = (firstFrameWaittingDisabled (prepareConfig s) = Some True
                         \<or> receiveRemoteFirstFrameDecoded s)\<rparr>"

definition emit :: "effect \<Rightarrow> CallApi \<Rightarrow> CallApi" where
  "emit e s = s\<lparr>trace := trace s @ [observe e s]\<rparr>"

text \<open>
  Modelled from the spec: the call-message codec (./callMessage is not among the
  sources). It holds the current call id, which \<open>setCallId\<close> writes and
  \<open>getCallId\<close> reads, and \<open>encode\<close> stamps it onto every outbound message;
  \<open>decode\<close> extracts the fields of the envelope, so an inbound message is given to
  the engine as an \<open>ICallMessage\<close>.
\<close>

definition CallMessage_setCallId :: "string \<Rightarrow> CallApi \<Rightarrow> CallApi" where
  "CallMessage_setCallId v s = s\<lparr>callId := v\<rparr>"

definition CallMessage_getCallId :: "CallApi \<Rightarrow> string" where
  "CallMessage_getCallId s = callId s"

definition CallMessage_encode :: "ICallMessage \<Rightarrow> CallApi \<Rightarrow> ICallMessage" where
  "CallMessage_encode msg s = msg\<lparr>m_callId := callId s\<rparr>"


definition isBusy :: "CallApi \<Rightarrow> bool" where
  "isBusy s =
     (state s = calling \<or> state s = connected \<or> state s = connecting)"

definition callStateChange ::
  "CallStateType \<Rightarrow> CallStateReason \<Rightarrow> string option \<Rightarrow> eventInfo \<Rightarrow> CallApi \<Rightarrow> CallApi"
where
  "callStateChange st stateReason eventReason info s =
     (if state s = st then s
      else emit (CallStateChanged st stateReason eventReason info) (s\<lparr>state := st\<rparr>))"

definition callEventChange :: "CallEvent \<Rightarrow> CallApi \<Rightarrow> CallApi" where
  "callEventChange ev s = emit (CallEventChanged ev) s"

definition callError :: "CallErrorEvent \<Rightarrow> CallErrorCodeType \<Rightarrow> CallApi \<Rightarrow> CallApi" where
  "callError errorEvent errorType s = emit (CallError errorEvent errorType) s"

text \<open>
  Modelled from the spec: the call-info collector (./callInfo is not among the sources).
  It is an ordered list of milestones that \<open>start\<close> begins, \<open>add\<close> extends and
  \<open>end\<close> resets at teardown; the time stamps are left out.
\<close>

definition CallInfo_start :: "CallApi \<Rightarrow> CallApi" where
  "CallInfo_start s = s\<lparr>callInfo := [M_start]\<rparr>"

definition CallInfo_add :: "milestone \<Rightarrow> CallApi \<Rightarrow> CallApi" where
  "CallInfo_add m s = s\<lparr>callInfo := callInfo s @ [m]\<rparr>"

definition CallInfo_end :: "CallApi \<Rightarrow> CallApi" where
  "CallInfo_end s = s\<lparr>callInfo := []\<rparr>"

definition isCallingUser :: "int \<Rightarrow> CallApi \<Rightarrow> bool" where
  "isCallingUser uid s =
     (if remoteUserId s = 0 then True else remoteUserId s = uid)"

subsection \<open>Playing tracks\<close>

definition playLocalVideo :: "CallApi \<Rightarrow> CallApi" where
  "playLocalVideo s =
     (case videoTrack (localTracks s) of
        None \<Rightarrow> s
      | Some t \<Rightarrow>
          if isPlaying t then s
          else (emit (TrackPlay LocalVideo) s)
                 \<lparr>localTracks := (localTracks s)\<lparr>videoTrack := Some (Track True)\<rparr>\<rparr>)"

definition palyRemoteVideo :: "CallApi \<Rightarrow> CallApi" where
  "palyRemoteVideo s =
     (case videoTrack (remoteTracks s) of
        None \<Rightarrow> s
      | Some t \<Rightarrow>
          if isPlaying t then s
          else (emit (TrackPlay RemoteVideo) s)
                 \<lparr>remoteTracks := (remoteTracks s)\<lparr>videoTrack := Some (Track True)\<rparr>\<rparr>)"

definition playRemoteAudio :: "CallApi \<Rightarrow> CallApi" where
  "playRemoteAudio s =
     (case audioTrack (remoteTracks s) of
        None \<Rightarrow> s
      | Some t \<Rightarrow>
          if isPlaying t then s
          else (emit (TrackPlay RemoteAudio) s)
                 \<lparr>remoteTracks := (remoteTracks s)\<lparr>audioTrack := Some (Track True)\<rparr>\<rparr>)"

subsection \<open>Reset and teardown\<close>

definition resetView :: "CallApi \<Rightarrow> CallApi" where
  "resetView s =
     (let s1 = (case localView (prepareConfig s) of
                  None \<Rightarrow> s | Some v \<Rightarrow> emit (ClearView LocalSide) s)
      in case remoteView (prepareConfig s1) of
           None \<Rightarrow> s1 | Some v \<Rightarrow> emit (ClearView RemoteSide) s1)"

definition resetData :: "CallApi \<Rightarrow> CallApi" where
  "resetData s =
     (let s1 = (CallMessage_setCallId [] s)\<lparr>remoteUserId := 0,
                 localTracks := \<lparr>audioTrack = None, videoTrack = None\<rparr>,
                 remoteTracks := \<lparr>audioTrack = None, videoTrack = None\<rparr>,
                 rtcJoined := False, receiveRemoteFirstFrameDecoded := False\<rparr>;
          s2 = resetView s1;
          s3 = (case cancelCallTimer s2 of
                  None \<Rightarrow> s2
                | Some tm \<Rightarrow> (emit ClearTimeout s2)\<lparr>cancelCallTimer := None\<rparr>)
      in CallInfo_end s3)"

definition publishMessage :: "outcomes \<Rightarrow> int \<Rightarrow> ICallMessage \<Rightarrow> async" where
  "publishMessage io uid msg s =
     (emit (SendMessage uid (CallMessage_encode msg s)) s,
      \<lambda>t. if sendMessageOk io then Ok t
           else Throw SendMessageError (callError sendMessageFail message t))"

definition destory :: "outcomes \<Rightarrow> async" where
  "destory io s =
     (let s1 = (case audioTrack (remoteTracks s) of
                  None \<Rightarrow> s
                | Some t \<Rightarrow> (emit (TrackStop RemoteAudio) s)
                     \<lparr>remoteTracks := (remoteTracks s)\<lparr>audioTrack := Some (Track False)\<rparr>\<rparr>);
          s2 = (case audioTrack (localTracks s1) of
                  None \<Rightarrow> s1 | Some t \<Rightarrow> emit (TrackClose LocalAudio) s1);
          s3 = (case videoTrack (localTracks s2) of
                  None \<Rightarrow> s2 | Some t \<Rightarrow> emit (TrackClose LocalVideo) s2)
      in if rtcJoined s3
         then (emit RtcLeave s3,
               \<lambda>t. if leaveOk io then Ok (resetData (callEventChange E_localLeft t))
                    else Throw RtcError (callError rtcOccurError rtc t))
         else (resetData s3, Ok))"

text \<open>A message with the optional fields absent; \<open>encode\<close> stamps the call id.\<close>

definition envelope :: "int \<Rightarrow> int \<Rightarrow> CallAction \<Rightarrow> ICallMessage" where
  "envelope from remote action =
     \<lparr>m_callId = [], fromUserId = from, m_remoteUserId = remote, fromRoomId = None,
      message_action = action, rejectReason = None, rejectByInternal = None,
      cancelCallByInternal = None\<rparr>"

subsection \<open>The timer\<close>

text \<open>
  The closure \<open>_autoCancelCall\<close> gives to \<open>setTimeout\<close>; \<open>this.remoteUserId\<close> is
  read when it runs.
\<close>

definition timeoutCallback :: "bool \<Rightarrow> outcomes \<Rightarrow> CallApi \<Rightarrow> result" where
  "timeoutCallback isLocal io s =
     (if state s = calling \<or> state s = connecting then
        (let s1 = callStateChange prepared R_callingTimeout None NoInfo s;
             s2 = callEventChange
                    (if isLocal then E_callingTimeout else E_remoteCallingTimeout) s1
         in await
              (Promise_all
                 (publishMessage io (remoteUserId s2)
                    ((envelope (userId s2) (remoteUserId s2) Cancel)
                       \<lparr>cancelCallByInternal := Some Internal\<rparr>))
                 (destory io)) s2)
      else Ok s)"

text \<open>
  \<open>_autoCancelCall\<close> is declared \<open>async\<close> but awaits nothing: its body runs to the
  end synchronously. A delay that is absent or \<open>0\<close> is falsy.
\<close>

definition autoCancelCall :: "bool \<Rightarrow> CallApi \<Rightarrow> CallApi" where
  "autoCancelCall isLocal s =
     (if remoteUserId s = 0 then s
      else case callTimeoutMillisecond (prepareConfig s) of
             None \<Rightarrow> s
           | Some time \<Rightarrow>
               if time = 0 then s
               else
                 (let s1 = (case cancelCallTimer s of
                              None \<Rightarrow> s
                            | Some tm \<Rightarrow> (emit ClearTimeout s)\<lparr>cancelCallTimer := None\<rparr>)
                  in (emit (SetTimeout isLocal time) s1)
                       \<lparr>cancelCallTimer := Some (Timer isLocal time)\<rparr>))"

subsection \<open>Joining the media channel\<close>

definition createLocalTracks :: "outcomes \<Rightarrow> async" where
  "createLocalTracks io s =
     (emit CreateTracks s,
      \<lambda>t. if createTracksOk io
           then Ok (t\<lparr>localTracks :=
                        \<lparr>audioTrack = Some (Track False), videoTrack = Some (Track False)\<rparr>\<rparr>)
           else Throw RtcError t)"

definition rtcJoin :: "outcomes \<Rightarrow> async" where
  "rtcJoin io s =
     (if rtcJoined s then (s, Ok)
      else if roomId (prepareConfig s) = None \<or> roomId (prepareConfig s) = Some []
      then (s, Throw (Error ''roomId is undefined''))
      else if rtcToken (prepareConfig s) = None \<or> rtcToken (prepareConfig s) = Some []
      then (s, Throw (Error ''rtcToken is undefined''))
      else (emit RtcJoin (callEventChange E_joinRTCStart s),
            \<lambda>t. if joinOk io
                 then Ok (CallInfo_add M_localUserJoinChannel
                            (callEventChange E_localJoined
                               (callEventChange E_joinRTCSuccessed (t\<lparr>rtcJoined := True\<rparr>))))
                 else Throw RtcError t))"

definition rtcPublish :: "outcomes \<Rightarrow> async" where
  "rtcPublish io s =
     (if videoTrack (localTracks s) \<noteq> None \<and> audioTrack (localTracks s) \<noteq> None
      then (emit RtcPublish s,
            \<lambda>t. if publishOk io
                 then Ok (callEventChange E_publishFirstLocalVideoFrame t)
                 else Throw RtcError t)
      else (s, Throw (Error ''videoTrack or audioTrack is undefined'')))"

definition rtcJoinAndPublish :: "outcomes \<Rightarrow> async" where
  "rtcJoinAndPublish io s =
     (case Promise_all (createLocalTracks io) (rtcJoin io) s of
        (s1, k) \<Rightarrow>
          (s1, \<lambda>t. case andThen (k t) (\<lambda>u. await (rtcPublish io) (playLocalVideo u)) of
                      Ok v \<Rightarrow> Ok v
                    | Throw e v \<Rightarrow> Throw e (callError rtcOccurError rtc v)))"

subsection \<open>The view-attach check\<close>

definition checkAppendView :: "CallApi \<Rightarrow> result" where
  "checkAppendView s =
     (if state s \<noteq> connecting then Ok s
      else if firstFrameWaittingDisabled (prepareConfig s) = Some True
              \<or> receiveRemoteFirstFrameDecoded s
      then
        (let s1 = callStateChange connected R_recvRemoteFirstFrame None NoInfo s
         in case localView (prepareConfig s1) of
              None \<Rightarrow> Throw (Error ''localView is undefined'') s1
            | Some lv \<Rightarrow>
                (let s2 = playLocalVideo (emit (AppendChild LocalSide) s1)
                 in case remoteView (prepareConfig s1) of
                      None \<Rightarrow> Throw (Error ''remoteView is undefined'') s2
                    | Some rv \<Rightarrow>
                        Ok (playRemoteAudio
                              (palyRemoteVideo (emit (AppendChild RemoteSide) s2)))))
      else Ok s)"

definition handleRemoteFirstFrameDecoded :: "CallApi \<Rightarrow> result" where
  "handleRemoteFirstFrameDecoded s =
     (let s1 = callEventChange E_recvRemoteFirstFrame s;
          s2 = s1\<lparr>receiveRemoteFirstFrameDecoded := True\<rparr>;
          s3 = CallInfo_add M_recvFirstFrame s2;
          s4 = emit (CallInfoChanged (callInfo s3)) s3
      in checkAppendView s4)"

subsection \<open>The public commands\<close>

text \<open>
  \<open>{...this.prepareConfig, ...prepareConfig}\<close>: a field the argument has replaces
  the old one.
\<close>

definition over :: "'a option \<Rightarrow> 'a option \<Rightarrow> 'a option" where
  "over old new = (case new of None \<Rightarrow> old | Some v \<Rightarrow> Some v)"

definition mergeConfig :: "IPrepareConfig \<Rightarrow> IPrepareConfig \<Rightarrow> IPrepareConfig" where
  "mergeConfig old new =
     \<lparr>roomId = over (roomId old) (roomId new),
      rtcToken = over (rtcToken old) (rtcToken new),
      localView = over (localView old) (localView new),
      remoteView = over (remoteView old) (remoteView new),
      autoAccept = over (autoAccept old) (autoAccept new),
      callTimeoutMillisecond =
        over (callTimeoutMillisecond old) (callTimeoutMillisecond new),
      firstFrameWaittingDisabled =
        over (firstFrameWaittingDisabled old) (firstFrameWaittingDisabled new)\<rparr>"

definition prepareForCall :: "IPrepareConfig \<Rightarrow> CallApi \<Rightarrow> result" where
  "prepareForCall cfg s =
     (if isBusy s then Throw CurrentlyBusy (callEventChange E_stateMismatch s)
      else Ok (callStateChange prepared R_none None NoInfo
                 (s\<lparr>prepareConfig := mergeConfig (prepareConfig s) cfg\<rparr>)))"

text \<open>
  \<open>call\<close>: \<open>uuid\<close> is what \<open>uuidv4()\<close> returns. \<open>_rtcJoinAndPublish()\<close> is
  started and not awaited; the invite is awaited.
\<close>

definition call :: "outcomes \<Rightarrow> string \<Rightarrow> int \<Rightarrow> CallType option \<Rightarrow> CallApi \<Rightarrow> result" where
  "call io uuid remote ctype s =
     (if state s \<noteq> prepared
      then Throw (CallFailed (state s)) (callEventChange E_stateMismatch s)
      else
        (let s1 = CallInfo_start s;
             s2 = s1\<lparr>remoteUserId := remote\<rparr>;
             s3 = s2\<lparr>callType := (case ctype of None \<Rightarrow> video | Some t \<Rightarrow> t)\<rparr>;
             callStateReason =
               (if callType s3 = video then R_localVideoCall else R_localAudioCall);
             s4 = callStateChange calling callStateReason (Some [])
                    (CallPeers remote (userId s3)) s3;
             s5 = callEventChange E_onCalling s4;
             s6 = CallMessage_setCallId uuid s5;
             callAction = (if callType s6 = video then VideoCall else AudioCall);
             s7 = autoCancelCall True s6
         in case rtcJoinAndPublish io s7 of
              (s8, media) \<Rightarrow>
                detached media
                  (andThen
                     (await
                        (publishMessage io remote
                           ((envelope (userId s8) remote callAction)
                              \<lparr>fromRoomId := roomId (prepareConfig s8)\<rparr>)) s8)
                     (\<lambda>t. Ok (callEventChange E_remoteUserRecvCall
                                 (CallInfo_add M_remoteUserRecvCall t))))))"

definition cancelCall :: "outcomes \<Rightarrow> CallApi \<Rightarrow> result" where
  "cancelCall io s =
     (let s1 = callStateChange prepared R_localCancel None NoInfo s;
          s2 = callEventChange E_localCancelled s1
      in await
           (Promise_all
              (publishMessage io (remoteUserId s2)
                 ((envelope (userId s2) (remoteUserId s2) Cancel)
                    \<lparr>cancelCallByInternal := Some External\<rparr>))
              (destory io)) s2)"

definition reject :: "outcomes \<Rightarrow> int \<Rightarrow> string option \<Rightarrow> CallApi \<Rightarrow> result" where
  "reject io remote reason s =
     (let s1 = callStateChange prepared R_localRejected reason NoInfo s;
          s2 = callEventChange E_localRejected s1
      in await
           (Promise_all
              (publishMessage io remote
                 ((envelope (userId s2) remote Reject)
                    \<lparr>rejectReason := reason, rejectByInternal := Some External\<rparr>))
              (destory io)) s2)"

text \<open>
  \<open>accept\<close>: \<open>_checkAppendView()\<close> is not asynchronous. It runs while the array for
  \<open>Promise.all\<close> is built, after the synchronous part of the send; when it throws,
  \<open>accept\<close> throws and nobody awaits the send.
\<close>

definition accept :: "outcomes \<Rightarrow> int \<Rightarrow> CallApi \<Rightarrow> result" where
  "accept io remote s =
     (if state s \<noteq> calling
      then Throw (AcceptFail (state s)) (callEventChange E_stateMismatch s)
      else
        (let s1 = callEventChange E_localAccepted s;
             s2 = CallInfo_add M_acceptCall s1;
             s3 = callStateChange connecting R_localAccepted None NoInfo s2
         in case publishMessage io remote (envelope (userId s3) remote Accept) s3 of
              (s4, sent) \<Rightarrow>
                (case checkAppendView s4 of
                   Ok t \<Rightarrow> sent t
                 | Throw e t \<Rightarrow> detached sent (Throw e t))))"

definition hangup :: "outcomes \<Rightarrow> int \<Rightarrow> CallApi \<Rightarrow> result" where
  "hangup io remote s =
     (let s1 = callStateChange prepared R_localHangup None NoInfo s;
          s2 = callEventChange E_localHangup s1
      in await
           (Promise_all
              (publishMessage io remote (envelope (userId s2) remote Hangup))
              (destory io)) s2)"

subsection \<open>Inbound signalling\<close>

definition receiveCancelCall :: "outcomes \<Rightarrow> ICallMessage \<Rightarrow> CallApi \<Rightarrow> result" where
  "receiveCancelCall io data s =
     (if \<not> isCallingUser (fromUserId data) s then Ok s
      else
        (let s1 = callStateChange prepared R_remoteCancel (Some [])
                    (CancelInfo (cancelCallByInternal data)) s;
             s2 = callEventChange E_remoteCancelled s1
         in await (destory io) s2))"

definition autoReject :: "outcomes \<Rightarrow> int \<Rightarrow> async" where
  "autoReject io remote s =
     publishMessage io remote
       ((envelope (userId s) remote Reject)
          \<lparr>rejectReason := Some ''busy'', rejectByInternal := Some Internal\<rparr>) s"

definition receiveVideoCall :: "outcomes \<Rightarrow> ICallMessage \<Rightarrow> CallApi \<Rightarrow> result" where
  "receiveVideoCall io data s =
     (if \<not> isCallingUser (fromUserId data) s
      then (case autoReject io (fromUserId data) s of
              (s1, sent) \<Rightarrow> detached sent (Ok s1))
      else
        (let s1 = CallInfo_start s;
             s2 = CallMessage_setCallId (m_callId data) s1;
             s3 = s2\<lparr>remoteUserId := fromUserId data\<rparr>;
             s4 = s3\<lparr>prepareConfig := (prepareConfig s3)\<lparr>roomId := fromRoomId data\<rparr>\<rparr>;
             s5 = autoCancelCall False s4;
             s6 = callStateChange calling R_remoteVideoCall (Some [])
                    (CallPeers (m_remoteUserId data) (fromUserId data)) s5;
             s7 = callEventChange E_onCalling s6
         in andThen (await (rtcJoinAndPublish io) s7)
              (\<lambda>t. if autoAccept (prepareConfig t) = Some True
                    then accept io (remoteUserId t) t
                    else Ok t)))"

definition receiveAccept :: "ICallMessage \<Rightarrow> CallApi \<Rightarrow> result" where
  "receiveAccept data s =
     (let s1 = CallInfo_add M_acceptCall s;
          s2 = callEventChange E_remoteAccepted s1;
          s3 = callStateChange connecting R_remoteAccepted None NoInfo s2
      in checkAppendView s3)"

definition receiveHangup :: "outcomes \<Rightarrow> ICallMessage \<Rightarrow> CallApi \<Rightarrow> result" where
  "receiveHangup io data s =
     (if \<not> isCallingUser (fromUserId data) s then Ok s
      else
        (let s1 = callStateChange prepared R_remoteHangup None NoInfo s;
             s2 = callEventChange E_remoteHangup s1
         in await (destory io) s2))"

definition receiveReject :: "outcomes \<Rightarrow> ICallMessage \<Rightarrow> CallApi \<Rightarrow> result" where
  "receiveReject io data s =
     (if \<not> isCallingUser (fromUserId data) s then Ok s
      else
        (let stateReason =
               (if rejectByInternal data = Some Internal
                then R_remoteCallBusy else R_remoteRejected);
             s1 = (if stateReason = R_remoteCallBusy
                   then callEventChange E_remoteCallBusy s else s)
         in andThen (await (destory io) s1)
              (\<lambda>t. Ok (callEventChange E_remoteRejected
                          (callStateChange prepared stateReason (Some [])
                             (RejectInfo (rejectReason data)) t)))))"

definition messageReceive :: "outcomes \<Rightarrow> ICallMessage \<Rightarrow> CallApi \<Rightarrow> result" where
  "messageReceive io data s =
     (case message_action data of
        VideoCall \<Rightarrow> receiveVideoCall io data s
      | AudioCall \<Rightarrow> Ok s
      | Cancel \<Rightarrow> receiveCancelCall io data s
      | Accept \<Rightarrow> receiveAccept data s
      | Reject \<Rightarrow> receiveReject io data s
      | Hangup \<Rightarrow> receiveHangup io data s)"

subsection \<open>Media-plane events\<close>

definition userJoined :: "int \<Rightarrow> CallApi \<Rightarrow> result" where
  "userJoined uid s =
     (if uid \<noteq> remoteUserId s then Ok s
      else Ok (callEventChange E_remoteJoined (CallInfo_add M_remoteUserJoinChannel s)))"

definition userLeft :: "outcomes \<Rightarrow> int \<Rightarrow> CallApi \<Rightarrow> result" where
  "userLeft io uid s =
     (if uid \<noteq> remoteUserId s then Ok s
      else
        (let s1 = callEventChange E_remoteLeft s
         in if isBusy s1
            then andThen (await (destory io) s1)
                   (\<lambda>t. Ok (callStateChange prepared R_remoteHangup None NoInfo t))
            else Ok s1))"

definition subscribe :: "outcomes \<Rightarrow> mediaType \<Rightarrow> async" where
  "subscribe io kind s =
     (emit (RtcSubscribe kind) s,
      \<lambda>t. if subscribeOk io then Ok t else Throw RtcError t)"

definition unsubscribe :: "outcomes \<Rightarrow> mediaType \<Rightarrow> async" where
  "unsubscribe io kind s =
     (emit (RtcUnsubscribe kind) s,
      \<lambda>t. if subscribeOk io then Ok t else Throw RtcError t)"

definition userPublished :: "outcomes \<Rightarrow> int \<Rightarrow> mediaType \<Rightarrow> CallApi \<Rightarrow> result" where
  "userPublished io uid kind s =
     (if uid \<noteq> remoteUserId s then Ok s
      else andThen (await (subscribe io kind) s)
             (\<lambda>t. case kind of
                     MediaVideo \<Rightarrow>
                       Ok (palyRemoteVideo
                             (t\<lparr>remoteTracks :=
                                  (remoteTracks t)\<lparr>videoTrack := Some (Track False)\<rparr>\<rparr>))
                   | MediaAudio \<Rightarrow>
                       (let t1 = t\<lparr>remoteTracks :=
                                     (remoteTracks t)\<lparr>audioTrack := Some (Track False)\<rparr>\<rparr>
                        in if state t1 = connected then Ok (playRemoteAudio t1)
                           else Ok t1)))"

definition userUnpublished :: "outcomes \<Rightarrow> int \<Rightarrow> mediaType \<Rightarrow> CallApi \<Rightarrow> result" where
  "userUnpublished io uid kind s =
     (if uid \<noteq> remoteUserId s then Ok s
      else andThen (await (unsubscribe io kind) s)
             (\<lambda>t. case kind of
                     MediaVideo \<Rightarrow>
                       Ok (t\<lparr>remoteTracks := (remoteTracks t)\<lparr>videoTrack := None\<rparr>\<rparr>)
                   | MediaAudio \<Rightarrow>
                       Ok (t\<lparr>remoteTracks := (remoteTracks t)\<lparr>audioTrack := None\<rparr>\<rparr>)))"

subsection \<open>The engine as a machine over its inputs\<close>

text \<open>
  Every way into the engine: the public commands, a decoded message, the media
  client's events, the first decoded frame of the remote video track (its observer is
  registered on the track \<open>user-published\<close> stores) and the firing of the timer whose
  handle the engine holds. An error thrown goes to the caller of the command; the
  engine goes on with the fields as they are.

  The machine allows a little more than the browser does: the handle stays in
  \<open>_cancelCallTimer\<close> after its timer has fired, and the machine lets it fire
  again; the first frame may be decoded whenever a remote video track is stored. So
  what holds for every run of the machine holds for every run of the code.
\<close>

datatype input =
    PrepareForCall IPrepareConfig
  | CallCmd string int "CallType option"
  | CancelCallCmd
  | RejectCmd int "string option"
  | AcceptCmd int
  | HangupCmd int
  | DestoryCmd
  | MessageReceive ICallMessage
  | UserJoined int
  | UserLeft int
  | UserPublished int mediaType
  | UserUnpublished int mediaType
  | FirstFrameDecoded
  | TimerFired

definition step :: "outcomes \<Rightarrow> input \<Rightarrow> CallApi \<Rightarrow> result" where
  "step io i s =
     (case i of
        PrepareForCall cfg \<Rightarrow> prepareForCall cfg s
      | CallCmd uuid remote ctype \<Rightarrow> call io uuid remote ctype s
      | CancelCallCmd \<Rightarrow> cancelCall io s
      | RejectCmd remote reason \<Rightarrow> reject io remote reason s
      | AcceptCmd remote \<Rightarrow> accept io remote s
      | HangupCmd remote \<Rightarrow> hangup io remote s
      | DestoryCmd \<Rightarrow> await (destory io) s
      | MessageReceive data \<Rightarrow> messageReceive io data s
      | UserJoined uid \<Rightarrow> userJoined uid s
      | UserLeft uid \<Rightarrow> userLeft io uid s
      | UserPublished uid kind \<Rightarrow> userPublished io uid kind s
      | UserUnpublished uid kind \<Rightarrow> userUnpublished io uid kind s
      | FirstFrameDecoded \<Rightarrow>
          (case videoTrack (remoteTracks s) of
             None \<Rightarrow> Ok s
           | Some t \<Rightarrow> handleRemoteFirstFrameDecoded s)
      | TimerFired \<Rightarrow>
          (case cancelCallTimer s of
             None \<Rightarrow> Ok s
           | Some tm \<Rightarrow> timeoutCallback (timerIsLocal tm) io s))"


text \<open>The engine as the constructor leaves it, for the user \<open>uid\<close>.\<close>

definition newCallApi :: "int \<Rightarrow> CallApi" where
  "newCallApi uid =
     \<lparr>userId = uid,
      prepareConfig = \<lparr>roomId = None, rtcToken = None, localView = None,
                       remoteView = None, autoAccept = None,
                       callTimeoutMillisecond = None,
                       firstFrameWaittingDisabled = None\<rparr>,
      state = idle, remoteUserId = 0,
      localTracks = \<lparr>audioTrack = None, videoTrack = None\<rparr>,
      remoteTracks = \<lparr>audioTrack = None, videoTrack = None\<rparr>,
      callType = video, callInfo = [], callId = [],
      rtcJoined = False, receiveRemoteFirstFrameDecoded = False,
      cancelCallTimer = None, trace = []\<rparr>"

subsection \<open>Reading a trace\<close>

definition effects :: "CallApi \<Rightarrow> effect list" where
  "effects s = map what (trace s)"

text \<open>What was done between the engine \<open>s\<close> and the later engine \<open>t\<close>.\<close>

definition added :: "CallApi \<Rightarrow> CallApi \<Rightarrow> effect list" where
  "added s t = drop (length (trace s)) (effects t)"

text \<open>The later engine \<open>t\<close> has the trace of \<open>s\<close> and what came after it.\<close>

definition ext :: "CallApi \<Rightarrow> CallApi \<Rightarrow> bool" where
  "ext s t = (\<exists>r. trace t = trace s @ r)"

text \<open>
  The frame condition of the view-attach check: the first frame is not waited for, or
  it has been decoded.
\<close>

definition frameReady :: "CallApi \<Rightarrow> bool" where
  "frameReady s = (firstFrameWaittingDisabled (prepareConfig s) = Some True
              \<or> receiveRemoteFirstFrameDecoded s)"

subsection \<open>What a teardown does, as lists of effects\<close>

definition stopAndClose :: "CallApi \<Rightarrow> effect list" where
  "stopAndClose s =
     (if audioTrack (remoteTracks s) = None then [] else [TrackStop RemoteAudio])
     @ (if audioTrack (localTracks s) = None then [] else [TrackClose LocalAudio])
     @ (if videoTrack (localTracks s) = None then [] else [TrackClose LocalVideo])"

definition resetEffects :: "CallApi \<Rightarrow> effect list" where
  "resetEffects s =
     (if localView (prepareConfig s) = None then [] else [ClearView LocalSide])
     @ (if remoteView (prepareConfig s) = None then [] else [ClearView RemoteSide])
     @ (if cancelCallTimer s = None then [] else [ClearTimeout])"

definition destoryStarted :: "CallApi \<Rightarrow> effect list" where
  "destoryStarted s =
     stopAndClose s @ (if rtcJoined s then [RtcLeave] else resetEffects s)"

definition destorySettled :: "outcomes \<Rightarrow> CallApi \<Rightarrow> effect list" where
  "destorySettled io s =
     (if rtcJoined s
      then (if leaveOk io then CallEventChanged E_localLeft # resetEffects s
            else [CallError rtcOccurError rtc])
      else [])"

definition sendSettled :: "outcomes \<Rightarrow> effect list" where
  "sendSettled io = (if sendMessageOk io then [] else [CallError sendMessageFail message])"

text \<open>The engine has been reset.\<close>

definition isReset :: "CallApi \<Rightarrow> bool" where
  "isReset s =
     (callId s = [] \<and> remoteUserId s = 0 \<and> \<not> rtcJoined s
      \<and> \<not> receiveRemoteFirstFrameDecoded s \<and> cancelCallTimer s = None
      \<and> localTracks s = \<lparr>audioTrack = None, videoTrack = None\<rparr>
      \<and> remoteTracks s = \<lparr>audioTrack = None, videoTrack = None\<rparr>)"

subsection \<open>Keeping a property\<close>

text \<open>
  An asynchronous method keeps the property \<open>P\<close> of the engine: its synchronous part
  does, and so does its continuation, whenever it was made and whatever the engine is
  when it runs.
\<close>

definition apres :: "(CallApi \<Rightarrow> bool) \<Rightarrow> async \<Rightarrow> bool" where
  "apres P a =
     (\<forall>s. (P s \<longrightarrow> P (fst (a s))) \<and> (\<forall>t. P t \<longrightarrow> P (engine_of (snd (a s) t))))"

text \<open>The fields that sending and joining the media channel leave alone.\<close>

definition kept ::
  "CallApi \<Rightarrow> CallStateType \<times> string \<times> int \<times> timer option \<times> IPrepareConfig \<times> int \<times> bool
     \<times> CallType"
where
  "kept s = (state s, callId s, remoteUserId s, cancelCallTimer s, prepareConfig s,
             userId s, receiveRemoteFirstFrameDecoded s, callType s)"

subsection \<open>What arming the timer and starting the media do\<close>

text \<open>
  What \<open>_autoCancelCall(isLocal)\<close> does when the remote user is \<open>remote\<close>: nothing
  without a remote user or without a delay, otherwise it clears the timer it holds and
  sets the new one.
\<close>

definition timerEffects :: "bool \<Rightarrow> int \<Rightarrow> CallApi \<Rightarrow> effect list" where
  "timerEffects isLocal remote s =
     (if remote = 0 then []
      else case callTimeoutMillisecond (prepareConfig s) of
             None \<Rightarrow> []
           | Some ms \<Rightarrow>
               if ms = 0 then []
               else (if cancelCallTimer s = None then [] else [ClearTimeout])
                    @ [SetTimeout isLocal ms])"

text \<open>The timer the engine holds after \<open>_autoCancelCall(isLocal)\<close>.\<close>

definition timerAfter :: "bool \<Rightarrow> int \<Rightarrow> CallApi \<Rightarrow> timer option" where
  "timerAfter isLocal remote s =
     (if remote = 0 then cancelCallTimer s
      else case callTimeoutMillisecond (prepareConfig s) of
             None \<Rightarrow> cancelCallTimer s
           | Some ms \<Rightarrow> if ms = 0 then cancelCallTimer s else Some (Timer isLocal ms))"

text \<open>
  The same, with the engine each of the two is done against: the old timer is cleared
  while its handle is held, and the new one is set when no handle is held.
\<close>

definition timerObservations :: "bool \<Rightarrow> CallApi \<Rightarrow> observation list" where
  "timerObservations isLocal s =
     (if remoteUserId s = 0 then []
      else case callTimeoutMillisecond (prepareConfig s) of
             None \<Rightarrow> []
           | Some ms \<Rightarrow>
               if ms = 0 then []
               else (if cancelCallTimer s = None then [] else [observe ClearTimeout s])
                    @ [observe (SetTimeout isLocal ms) (s\<lparr>cancelCallTimer := None\<rparr>)])"

text \<open>The synchronous part of \<open>_rtcJoinAndPublish\<close>.\<close>

definition mediaStarted :: "CallApi \<Rightarrow> effect list" where
  "mediaStarted s =
     CreateTracks
     # (if rtcJoined s
           \<or> roomId (prepareConfig s) = None \<or> roomId (prepareConfig s) = Some []
           \<or> rtcToken (prepareConfig s) = None \<or> rtcToken (prepareConfig s) = Some []
        then [] else [CallEventChanged E_joinRTCStart, RtcJoin])"

text \<open>The fields that only an invite, \<open>call\<close> and a reset write.\<close>

definition held :: "CallApi \<Rightarrow> string \<times> int \<times> timer option \<times> IPrepareConfig \<times> int" where
  "held s = (callId s, remoteUserId s, cancelCallTimer s, prepareConfig s, userId s)"

text \<open>A change of state to \<open>connected\<close>, and how many of them a list of effects has.\<close>

fun isConnectedChange :: "effect \<Rightarrow> bool" where
  "isConnectedChange (CallStateChanged st r er i) = (st = connected)"
| "isConnectedChange e = False"

definition connectedChanges :: "effect list \<Rightarrow> nat" where
  "connectedChanges es = length (filter isConnectedChange es)"






text \<open>
  The order of the changes of state and the attachments in a trace, read from left to
  right. The phase says what came last: a change to \<open>connecting\<close>; a change to
  \<open>connected\<close>; that and the attachment of the local view; that and the attachment
  of the remote view; or none of these. The order is kept when

  \<^item> a change to \<open>connected\<close> comes only in the phase \<open>Connecting\<close>, with the
    reason \<open>recvRemoteFirstFrame\<close>, no event reason and no event info, and is seen
    with the frame condition satisfied;
  \<^item> the local view is attached only in the phase \<open>JustConnected\<close> and the remote
    view only in the phase \<open>LocalAttached\<close>, both in state \<open>connected\<close>.

  \<open>attachStep\<close> gives the next phase, or \<open>None\<close> when the order is broken.
\<close>

datatype phase = Elsewhere | Connecting | JustConnected | LocalAttached | BothAttached

definition attachStep :: "phase \<Rightarrow> observation \<Rightarrow> phase option" where
  "attachStep p ob =
     (case what ob of
        CallStateChanged st r er i \<Rightarrow>
          if st = connected
          then (if p = Connecting \<and> r = R_recvRemoteFirstFrame \<and> er = None \<and> i = NoInfo
                   \<and> seen_state ob = connected \<and> seen_frameReady ob
                then Some JustConnected else None)
          else if st = connecting then Some Connecting
          else Some Elsewhere
      | AppendChild sd \<Rightarrow>
          (case sd of
             LocalSide \<Rightarrow>
               if p = JustConnected \<and> seen_state ob = connected
               then Some LocalAttached else None
           | RemoteSide \<Rightarrow>
               if p = LocalAttached \<and> seen_state ob = connected
               then Some BothAttached else None)
      | _ \<Rightarrow> Some p)"

fun attachRun :: "phase \<Rightarrow> observation list \<Rightarrow> phase option" where
  "attachRun p [] = Some p"
| "attachRun p (ob # obs) =
     (case attachStep p ob of None \<Rightarrow> None | Some q \<Rightarrow> attachRun q obs)"



text \<open>
  The engine \<open>t\<close> holds the call id \<open>v\<close>, and so did the engine at every
  observation from the \<open>n\<close>-th on.
\<close>

definition idSince :: "nat \<Rightarrow> string \<Rightarrow> CallApi \<Rightarrow> bool" where
  "idSince n v t = (callId t = v \<and> list_all (\<lambda>ob. seen_callId ob = v) (drop n (trace t)))"


section \<open>Example engines\<close>

definition okIO :: outcomes where
  "okIO = \<lparr>sendMessageOk = True, leaveOk = True, joinOk = True, createTracksOk = True,
           publishOk = True, subscribeOk = True\<rparr>"

text \<open>User 1, in a call with user 7.\<close>

definition busyEngine :: CallApi where
  "busyEngine = (newCallApi 1)\<lparr>state := calling, remoteUserId := 7, callId := ''id''\<rparr>"

text \<open>User 1, connecting, with a local view and no remote view.\<close>

definition halfViews :: CallApi where
  "halfViews = (newCallApi 1)
     \<lparr>state := connecting, remoteUserId := 7, callId := ''id'',
      prepareConfig := (prepareConfig (newCallApi 1))
         \<lparr>localView := Some ''local-view'', firstFrameWaittingDisabled := Some True\<rparr>\<rparr>"

text \<open>User 1, connecting, the first frame decoded, with no view at all.\<close>

definition noViews :: CallApi where
  "noViews = (newCallApi 1)
     \<lparr>state := connecting, remoteUserId := 7, callId := ''id'',
      receiveRemoteFirstFrameDecoded := True\<rparr>"

text \<open>User 1, calling user 7, joined, with tracks, views and a pending timer.\<close>

definition joinedCaller :: CallApi where
  "joinedCaller = (newCallApi 1)
     \<lparr>state := calling, remoteUserId := 7, callId := ''id'', rtcJoined := True,
      localTracks := \<lparr>audioTrack = Some (Track False), videoTrack = Some (Track True)\<rparr>,
      cancelCallTimer := Some (Timer True 1000),
      prepareConfig := \<lparr>roomId = Some ''room'', rtcToken = Some ''token'',
         localView = Some ''local-view'', remoteView = Some ''remote-view'',
         autoAccept = None, callTimeoutMillisecond = Some 1000,
         firstFrameWaittingDisabled = None\<rparr>\<rparr>"

definition busyReject :: ICallMessage where
  "busyReject = (envelope 7 1 Reject)
     \<lparr>rejectReason := Some ''busy'', rejectByInternal := Some Internal\<rparr>"

text \<open>User 1, prepared, with a room, a token, both views and no timeout.\<close>

definition preparedNoTimeout :: CallApi where
  "preparedNoTimeout = (newCallApi 1)
     \<lparr>state := prepared,
      prepareConfig := \<lparr>roomId = Some ''room'', rtcToken = Some ''token'',
         localView = Some ''local-view'', remoteView = Some ''remote-view'',
         autoAccept = None, callTimeoutMillisecond = None,
         firstFrameWaittingDisabled = None\<rparr>\<rparr>"

text \<open>The same, with a timeout of one second.\<close>

definition preparedEngine :: CallApi where
  "preparedEngine = preparedNoTimeout
     \<lparr>prepareConfig := (prepareConfig preparedNoTimeout)
        \<lparr>callTimeoutMillisecond := Some 1000\<rparr>\<rparr>"

text \<open>An invite from user 7 to user 1.\<close>

definition videoInvite :: ICallMessage where
  "videoInvite = (envelope 7 1 VideoCall)\<lparr>m_callId := ''their-id'', fromRoomId := Some ''their-room''\<rparr>"






section \<open>Basic facts\<close>

declare CallMessage_setCallId_def [simp] CallMessage_getCallId_def [simp]
  CallMessage_encode_def [simp]

lemma emit_fields [simp]:
  "userId (emit e s) = userId s"
  "prepareConfig (emit e s) = prepareConfig s"
  "state (emit e s) = state s"
  "remoteUserId (emit e s) = remoteUserId s"
  "localTracks (emit e s) = localTracks s"
  "remoteTracks (emit e s) = remoteTracks s"
  "callType (emit e s) = callType s"
  "callInfo (emit e s) = callInfo s"
  "callId (emit e s) = callId s"
  "rtcJoined (emit e s) = rtcJoined s"
  "receiveRemoteFirstFrameDecoded (emit e s) = receiveRemoteFirstFrameDecoded s"
  "cancelCallTimer (emit e s) = cancelCallTimer s"
  by (simp_all add: emit_def)

lemma trace_emit [simp]: "trace (emit e s) = trace s @ [observe e s]"
  by (simp add: emit_def)

lemma observe_simps [simp]:
  "what (observe e s) = e"
  "seen_state (observe e s) = state s"
  "seen_callId (observe e s) = callId s"
  "seen_timer (observe e s) = (cancelCallTimer s \<noteq> None)"
  "seen_remoteUserId (observe e s) = remoteUserId s"
  "seen_callType (observe e s) = callType s"
  "seen_callInfo (observe e s) = callInfo s"
  "seen_frameReady (observe e s) = frameReady s"
  by (simp_all add: observe_def frameReady_def)

lemma observe_cong:
  "state t = state s \<Longrightarrow> callId t = callId s \<Longrightarrow> cancelCallTimer t = cancelCallTimer s
   \<Longrightarrow> remoteUserId t = remoteUserId s \<Longrightarrow> callType t = callType s
   \<Longrightarrow> callInfo t = callInfo s \<Longrightarrow> prepareConfig t = prepareConfig s
   \<Longrightarrow> receiveRemoteFirstFrameDecoded t = receiveRemoteFirstFrameDecoded s
   \<Longrightarrow> observe e t = observe e s"
  by (simp add: observe_def)

lemma ext_refl [simp]: "ext s s"
  by (simp add: ext_def)

lemma ext_trans: "ext s t \<Longrightarrow> ext t u \<Longrightarrow> ext s u"
  by (auto simp add: ext_def)

lemma ext_emit [simp]: "ext s t \<Longrightarrow> ext s (emit e t)"
  by (auto simp add: ext_def)

lemma ext_update [simp]:
  "ext s (t\<lparr>state := a\<rparr>) = ext s t"
  "ext s (t\<lparr>callId := b\<rparr>) = ext s t"
  "ext s (t\<lparr>remoteUserId := c\<rparr>) = ext s t"
  "ext s (t\<lparr>callType := d\<rparr>) = ext s t"
  "ext s (t\<lparr>callInfo := e\<rparr>) = ext s t"
  "ext s (t\<lparr>localTracks := f\<rparr>) = ext s t"
  "ext s (t\<lparr>remoteTracks := g\<rparr>) = ext s t"
  "ext s (t\<lparr>rtcJoined := h\<rparr>) = ext s t"
  "ext s (t\<lparr>receiveRemoteFirstFrameDecoded := i\<rparr>) = ext s t"
  "ext s (t\<lparr>cancelCallTimer := j\<rparr>) = ext s t"
  "ext s (t\<lparr>prepareConfig := k\<rparr>) = ext s t"
  by (simp_all add: ext_def)

lemma added_self [simp]: "added s s = []"
  by (simp add: added_def effects_def)

lemma added_ext: "ext s t \<Longrightarrow> ext t u \<Longrightarrow> added s u = added s t @ added t u"
  by (auto simp add: ext_def added_def effects_def)

lemma added_emit [simp]: "ext s t \<Longrightarrow> added s (emit e t) = added s t @ [e]"
  by (auto simp add: ext_def added_def effects_def)

lemma added_update [simp]:
  "added s (t\<lparr>state := a\<rparr>) = added s t"
  "added s (t\<lparr>callId := b\<rparr>) = added s t"
  "added s (t\<lparr>remoteUserId := c\<rparr>) = added s t"
  "added s (t\<lparr>callType := d\<rparr>) = added s t"
  "added s (t\<lparr>callInfo := e\<rparr>) = added s t"
  "added s (t\<lparr>localTracks := f\<rparr>) = added s t"
  "added s (t\<lparr>remoteTracks := g\<rparr>) = added s t"
  "added s (t\<lparr>rtcJoined := h\<rparr>) = added s t"
  "added s (t\<lparr>receiveRemoteFirstFrameDecoded := i\<rparr>) = added s t"
  "added s (t\<lparr>cancelCallTimer := j\<rparr>) = added s t"
  "added s (t\<lparr>prepareConfig := k\<rparr>) = added s t"
  by (simp_all add: added_def effects_def)

lemma callEventChange_fields [simp]:
  "prepareConfig (callEventChange ev s) = prepareConfig s"
  "state (callEventChange ev s) = state s"
  "remoteUserId (callEventChange ev s) = remoteUserId s"
  "callId (callEventChange ev s) = callId s"
  "userId (callEventChange ev s) = userId s"
  "callType (callEventChange ev s) = callType s"
  "cancelCallTimer (callEventChange ev s) = cancelCallTimer s"
  "receiveRemoteFirstFrameDecoded (callEventChange ev s) = receiveRemoteFirstFrameDecoded s"
  "rtcJoined (callEventChange ev s) = rtcJoined s"
  "localTracks (callEventChange ev s) = localTracks s"
  "remoteTracks (callEventChange ev s) = remoteTracks s"
  "callInfo (callEventChange ev s) = callInfo s"
  by (simp_all add: callEventChange_def)

lemma ext_callEventChange [simp]: "ext s t \<Longrightarrow> ext s (callEventChange ev t)"
  by (simp add: callEventChange_def)

lemma added_callEventChange [simp]:
  "ext s t \<Longrightarrow> added s (callEventChange ev t) = added s t @ [CallEventChanged ev]"
  by (simp add: callEventChange_def)

lemma callError_fields [simp]:
  "prepareConfig (callError a b s) = prepareConfig s"
  "state (callError a b s) = state s"
  "remoteUserId (callError a b s) = remoteUserId s"
  "callId (callError a b s) = callId s"
  "userId (callError a b s) = userId s"
  "callType (callError a b s) = callType s"
  "cancelCallTimer (callError a b s) = cancelCallTimer s"
  "receiveRemoteFirstFrameDecoded (callError a b s) = receiveRemoteFirstFrameDecoded s"
  "rtcJoined (callError a b s) = rtcJoined s"
  "localTracks (callError a b s) = localTracks s"
  "remoteTracks (callError a b s) = remoteTracks s"
  "callInfo (callError a b s) = callInfo s"
  by (simp_all add: callError_def)

lemma ext_callError [simp]: "ext s t \<Longrightarrow> ext s (callError a b t)"
  by (simp add: callError_def)

lemma added_callError [simp]:
  "ext s t \<Longrightarrow> added s (callError a b t) = added s t @ [CallError a b]"
  by (simp add: callError_def)

lemma callStateChange_fields [simp]:
  "prepareConfig (callStateChange st r er i s) = prepareConfig s"
  "state (callStateChange st r er i s) = st"
  "remoteUserId (callStateChange st r er i s) = remoteUserId s"
  "callId (callStateChange st r er i s) = callId s"
  "userId (callStateChange st r er i s) = userId s"
  "callType (callStateChange st r er i s) = callType s"
  "cancelCallTimer (callStateChange st r er i s) = cancelCallTimer s"
  "receiveRemoteFirstFrameDecoded (callStateChange st r er i s) = receiveRemoteFirstFrameDecoded s"
  "rtcJoined (callStateChange st r er i s) = rtcJoined s"
  "localTracks (callStateChange st r er i s) = localTracks s"
  "remoteTracks (callStateChange st r er i s) = remoteTracks s"
  "callInfo (callStateChange st r er i s) = callInfo s"
  by (simp_all add: callStateChange_def)

lemma ext_callStateChange [simp]: "ext s t \<Longrightarrow> ext s (callStateChange st r er i t)"
  by (simp add: callStateChange_def)

lemma added_callStateChange [simp]:
  "ext s t \<Longrightarrow> added s (callStateChange st r er i t) =
     added s t @ (if state t = st then [] else [CallStateChanged st r er i])"
  by (simp add: callStateChange_def)

lemma CallInfo_add_fields [simp]:
  "prepareConfig (CallInfo_add m s) = prepareConfig s"
  "state (CallInfo_add m s) = state s"
  "remoteUserId (CallInfo_add m s) = remoteUserId s"
  "callId (CallInfo_add m s) = callId s"
  "userId (CallInfo_add m s) = userId s"
  "callType (CallInfo_add m s) = callType s"
  "cancelCallTimer (CallInfo_add m s) = cancelCallTimer s"
  "receiveRemoteFirstFrameDecoded (CallInfo_add m s) = receiveRemoteFirstFrameDecoded s"
  "rtcJoined (CallInfo_add m s) = rtcJoined s"
  "localTracks (CallInfo_add m s) = localTracks s"
  "remoteTracks (CallInfo_add m s) = remoteTracks s"
  "trace (CallInfo_add m s) = trace s"
  "callInfo (CallInfo_add m s) = callInfo s @ [m]"
  by (simp_all add: CallInfo_add_def)

lemma ext_CallInfo_add [simp]: "ext s (CallInfo_add m t) = ext s t"
  by (simp add: ext_def)

lemma added_CallInfo_add [simp]: "added s (CallInfo_add m t) = added s t"
  by (simp add: added_def effects_def)

lemma playLocalVideo_fields [simp]:
  "prepareConfig (playLocalVideo s) = prepareConfig s"
  "state (playLocalVideo s) = state s"
  "remoteUserId (playLocalVideo s) = remoteUserId s"
  "callId (playLocalVideo s) = callId s"
  "userId (playLocalVideo s) = userId s"
  "callType (playLocalVideo s) = callType s"
  "cancelCallTimer (playLocalVideo s) = cancelCallTimer s"
  "receiveRemoteFirstFrameDecoded (playLocalVideo s) = receiveRemoteFirstFrameDecoded s"
  "rtcJoined (playLocalVideo s) = rtcJoined s"
  "remoteTracks (playLocalVideo s) = remoteTracks s"
  "callInfo (playLocalVideo s) = callInfo s"
  by (simp_all add: playLocalVideo_def split: option.splits)

lemma palyRemoteVideo_fields [simp]:
  "prepareConfig (palyRemoteVideo s) = prepareConfig s"
  "state (palyRemoteVideo s) = state s"
  "remoteUserId (palyRemoteVideo s) = remoteUserId s"
  "callId (palyRemoteVideo s) = callId s"
  "userId (palyRemoteVideo s) = userId s"
  "callType (palyRemoteVideo s) = callType s"
  "cancelCallTimer (palyRemoteVideo s) = cancelCallTimer s"
  "receiveRemoteFirstFrameDecoded (palyRemoteVideo s) = receiveRemoteFirstFrameDecoded s"
  "rtcJoined (palyRemoteVideo s) = rtcJoined s"
  "localTracks (palyRemoteVideo s) = localTracks s"
  "callInfo (palyRemoteVideo s) = callInfo s"
  by (simp_all add: palyRemoteVideo_def split: option.splits)

lemma playRemoteAudio_fields [simp]:
  "prepareConfig (playRemoteAudio s) = prepareConfig s"
  "state (playRemoteAudio s) = state s"
  "remoteUserId (playRemoteAudio s) = remoteUserId s"
  "callId (playRemoteAudio s) = callId s"
  "userId (playRemoteAudio s) = userId s"
  "callType (playRemoteAudio s) = callType s"
  "cancelCallTimer (playRemoteAudio s) = cancelCallTimer s"
  "receiveRemoteFirstFrameDecoded (playRemoteAudio s) = receiveRemoteFirstFrameDecoded s"
  "rtcJoined (playRemoteAudio s) = rtcJoined s"
  "localTracks (playRemoteAudio s) = localTracks s"
  "callInfo (playRemoteAudio s) = callInfo s"
  by (simp_all add: playRemoteAudio_def split: option.splits)

lemma ext_play [simp]:
  "ext s t \<Longrightarrow> ext s (playLocalVideo t)"
  "ext s t \<Longrightarrow> ext s (palyRemoteVideo t)"
  "ext s t \<Longrightarrow> ext s (playRemoteAudio t)"
  by (simp_all add: playLocalVideo_def palyRemoteVideo_def playRemoteAudio_def split: option.splits)

lemma added_playLocalVideo:
  "ext s t \<Longrightarrow> added s (playLocalVideo t) =
     added s t @ (if videoTrack (localTracks t) = Some (Track False) then [TrackPlay LocalVideo] else [])"
  by (cases "videoTrack (localTracks t)"; cases "the (videoTrack (localTracks t))")
     (auto simp add: playLocalVideo_def)


subsection \<open>The view-attach check\<close>

lemma checkAppendView_state:
  "state (engine_of (checkAppendView s)) =
     (if state s = connecting \<and> frameReady s then connected else state s)"
  by (simp add: checkAppendView_def frameReady_def Let_def split: option.splits)

lemma checkAppendView_thrown:
  "thrown (checkAppendView s) =
     (if state s = connecting \<and> frameReady s
      then (if localView (prepareConfig s) = None then Some (Error ''localView is undefined'')
            else if remoteView (prepareConfig s) = None then Some (Error ''remoteView is undefined'')
            else None)
      else None)"
  by (simp add: checkAppendView_def frameReady_def Let_def split: option.splits)

lemma checkAppendView_fields [simp]:
  "prepareConfig (engine_of (checkAppendView s)) = prepareConfig s"
  "remoteUserId (engine_of (checkAppendView s)) = remoteUserId s"
  "callId (engine_of (checkAppendView s)) = callId s"
  "userId (engine_of (checkAppendView s)) = userId s"
  "callType (engine_of (checkAppendView s)) = callType s"
  "cancelCallTimer (engine_of (checkAppendView s)) = cancelCallTimer s"
  "receiveRemoteFirstFrameDecoded (engine_of (checkAppendView s)) = receiveRemoteFirstFrameDecoded s"
  "rtcJoined (engine_of (checkAppendView s)) = rtcJoined s"
  "callInfo (engine_of (checkAppendView s)) = callInfo s"
  by (simp_all add: checkAppendView_def Let_def split: option.splits)

lemma ext_checkAppendView [simp]: "ext s t \<Longrightarrow> ext s (engine_of (checkAppendView t))"
  by (simp add: checkAppendView_def Let_def split: option.splits)

lemma publishMessage_sent_fields:
  "thrown (snd (publishMessage io u m s) t) = (if sendMessageOk io then None else Some SendMessageError)"
  "ext s' t \<Longrightarrow> ext s' (engine_of (snd (publishMessage io u m s) t))"
  "state (engine_of (snd (publishMessage io u m s) t)) = state t"
  "remoteUserId (engine_of (snd (publishMessage io u m s) t)) = remoteUserId t"
  by (simp_all add: publishMessage_def)


subsection \<open>Reset\<close>

lemma resetView_fields [simp]:
  "prepareConfig (resetView s) = prepareConfig s"
  "state (resetView s) = state s"
  "remoteUserId (resetView s) = remoteUserId s"
  "callId (resetView s) = callId s"
  "userId (resetView s) = userId s"
  "callType (resetView s) = callType s"
  "cancelCallTimer (resetView s) = cancelCallTimer s"
  "receiveRemoteFirstFrameDecoded (resetView s) = receiveRemoteFirstFrameDecoded s"
  "rtcJoined (resetView s) = rtcJoined s"
  "localTracks (resetView s) = localTracks s"
  "remoteTracks (resetView s) = remoteTracks s"
  "callInfo (resetView s) = callInfo s"
  by (simp_all add: resetView_def Let_def split: option.splits)

lemma ext_resetView [simp]: "ext s t \<Longrightarrow> ext s (resetView t)"
  by (simp add: resetView_def Let_def split: option.splits)

lemma added_resetView:
  "ext s t \<Longrightarrow> added s (resetView t) = added s t
     @ (if localView (prepareConfig t) = None then [] else [ClearView LocalSide])
     @ (if remoteView (prepareConfig t) = None then [] else [ClearView RemoteSide])"
  by (auto simp add: resetView_def Let_def split: option.splits)

lemma resetData_fields [simp]:
  "prepareConfig (resetData s) = prepareConfig s"
  "state (resetData s) = state s"
  "userId (resetData s) = userId s"
  "callType (resetData s) = callType s"
  "remoteUserId (resetData s) = 0"
  "callId (resetData s) = []"
  "cancelCallTimer (resetData s) = None"
  "receiveRemoteFirstFrameDecoded (resetData s) = False"
  "rtcJoined (resetData s) = False"
  "localTracks (resetData s) = \<lparr>audioTrack = None, videoTrack = None\<rparr>"
  "remoteTracks (resetData s) = \<lparr>audioTrack = None, videoTrack = None\<rparr>"
  "callInfo (resetData s) = []"
  by (simp_all add: resetData_def Let_def CallInfo_end_def split: option.splits)

lemma ext_resetData [simp]: "ext s t \<Longrightarrow> ext s (resetData t)"
  by (simp add: resetData_def Let_def CallInfo_end_def ext_def[of s "_\<lparr>callInfo := _\<rparr>"] split: option.splits)

lemma added_resetData:
  "ext s t \<Longrightarrow> added s (resetData t) = added s t @ resetEffects t"
  by (auto simp add: resetData_def Let_def CallInfo_end_def resetEffects_def added_resetView
      split: option.splits)

lemma isReset_resetData [simp]: "isReset (resetData s)"
  by (simp add: isReset_def)

subsection \<open>Teardown\<close>

lemma resetEffects_cong:
  "prepareConfig t = prepareConfig s \<Longrightarrow> cancelCallTimer t = cancelCallTimer s
   \<Longrightarrow> resetEffects t = resetEffects s"
  by (simp add: resetEffects_def)

lemma resetEffects_simps [simp]:
  "resetEffects (emit e s) = resetEffects s"
  "resetEffects (s\<lparr>remoteTracks := x\<rparr>) = resetEffects s"
  "resetEffects (callEventChange ev s) = resetEffects s"
  "resetEffects (callError a b s) = resetEffects s"
  by (simp_all add: resetEffects_def)

lemma destory_started_ext: "ext s (fst (destory io s))"
  by (simp add: destory_def Let_def option.case_eq_if)

lemma destory_started_added: "added s (fst (destory io s)) = destoryStarted s"
  by (cases "audioTrack (remoteTracks s)"; cases "audioTrack (localTracks s)";
      cases "videoTrack (localTracks s)")
     (simp_all add: destory_def Let_def destoryStarted_def stopAndClose_def added_resetData)

lemma destory_started_fields [simp]:
  "state (fst (destory io s)) = state s"
  "prepareConfig (fst (destory io s)) = prepareConfig s"
  "userId (fst (destory io s)) = userId s"
  "callType (fst (destory io s)) = callType s"
  by (simp_all add: destory_def Let_def option.case_eq_if)

lemma destory_started_reset: "\<not> rtcJoined s \<Longrightarrow> isReset (fst (destory io s))"
  by (simp add: destory_def Let_def option.case_eq_if)

lemma destory_started_kept:
  "rtcJoined s \<Longrightarrow> cancelCallTimer (fst (destory io s)) = cancelCallTimer s"
  "rtcJoined s \<Longrightarrow> callId (fst (destory io s)) = callId s"
  "rtcJoined s \<Longrightarrow> remoteUserId (fst (destory io s)) = remoteUserId s"
  "rtcJoined s \<Longrightarrow> rtcJoined (fst (destory io s))"
  by (simp_all add: destory_def Let_def option.case_eq_if)

lemma destory_settled_ext: "ext s' t \<Longrightarrow> ext s' (engine_of (snd (destory io s) t))"
  by (simp add: destory_def Let_def option.case_eq_if)

lemma destory_settled_added:
  "added t (engine_of (snd (destory io s) t)) =
     (if rtcJoined s
      then (if leaveOk io then CallEventChanged E_localLeft # resetEffects t
            else [CallError rtcOccurError rtc])
      else [])"
  by (simp add: destory_def Let_def added_resetData resetEffects_def option.case_eq_if)

lemma destory_settled_thrown:
  "thrown (snd (destory io s) t) = (if rtcJoined s \<and> \<not> leaveOk io then Some RtcError else None)"
  by (simp add: destory_def Let_def option.case_eq_if)

lemma destory_settled_fields [simp]:
  "state (engine_of (snd (destory io s) t)) = state t"
  "prepareConfig (engine_of (snd (destory io s) t)) = prepareConfig t"
  "userId (engine_of (snd (destory io s) t)) = userId t"
  "callType (engine_of (snd (destory io s) t)) = callType t"
  by (simp_all add: destory_def Let_def option.case_eq_if)

lemma destory_settled_reset:
  "rtcJoined s \<Longrightarrow> leaveOk io \<Longrightarrow> isReset (engine_of (snd (destory io s) t))"
  by (simp add: destory_def Let_def option.case_eq_if)

lemma destory_settled_skip: "\<not> rtcJoined s \<Longrightarrow> snd (destory io s) t = Ok t"
  by (simp add: destory_def Let_def option.case_eq_if)


lemma teardown_simps [simp]:
  "stopAndClose (emit e s) = stopAndClose s"
  "stopAndClose (callEventChange ev s) = stopAndClose s"
  "stopAndClose (callStateChange st r er i s) = stopAndClose s"
  "resetEffects (callStateChange st r er i s) = resetEffects s"
  "destoryStarted (emit e s) = destoryStarted s"
  "destoryStarted (callEventChange ev s) = destoryStarted s"
  "destoryStarted (callStateChange st r er i s) = destoryStarted s"
  "destorySettled io (emit e s) = destorySettled io s"
  "destorySettled io (callEventChange ev s) = destorySettled io s"
  "destorySettled io (callStateChange st r er i s) = destorySettled io s"
  by (simp_all add: stopAndClose_def resetEffects_def destoryStarted_def destorySettled_def)

lemma destory_settled_added':
  "rtcJoined s \<longrightarrow> prepareConfig t = prepareConfig s \<and> cancelCallTimer t = cancelCallTimer s
   \<Longrightarrow> added t (engine_of (snd (destory io s) t)) = destorySettled io s"
  by (auto simp add: destory_settled_added destorySettled_def resetEffects_def)

lemma await_destory_ext: "ext s (engine_of (await (destory io) s))"
  by (simp add: await_def case_prod_beta destory_settled_ext destory_started_ext)

lemma await_destory_added:
  "added s (engine_of (await (destory io) s)) = destoryStarted s @ destorySettled io s"
proof -
  have "added s (engine_of (await (destory io) s)) =
        added s (fst (destory io s))
        @ added (fst (destory io s)) (engine_of (snd (destory io s) (fst (destory io s))))"
    unfolding await_def case_prod_beta
    by (rule added_ext[OF destory_started_ext destory_settled_ext[OF ext_refl]])
  then show ?thesis
    by (simp add: destory_started_added destory_settled_added' destory_started_kept)
qed

lemma await_destory_thrown:
  "thrown (await (destory io) s) = (if rtcJoined s \<and> \<not> leaveOk io then Some RtcError else None)"
  by (simp add: await_def case_prod_beta destory_settled_thrown)

lemma await_destory_fields [simp]:
  "state (engine_of (await (destory io) s)) = state s"
  "prepareConfig (engine_of (await (destory io) s)) = prepareConfig s"
  "userId (engine_of (await (destory io) s)) = userId s"
  "callType (engine_of (await (destory io) s)) = callType s"
  by (simp_all add: await_def case_prod_beta)

lemma await_destory_reset:
  "rtcJoined s \<longrightarrow> leaveOk io \<Longrightarrow> isReset (engine_of (await (destory io) s))"
  by (cases "rtcJoined s")
     (simp_all add: await_def case_prod_beta destory_settled_reset destory_settled_skip
       destory_started_reset)

lemma await_destory_callInfo:
  "rtcJoined s \<longrightarrow> leaveOk io \<Longrightarrow> callInfo (engine_of (await (destory io) s)) = []"
  by (simp add: await_def case_prod_beta destory_def Let_def option.case_eq_if)

lemma await_destory_failed:
  "rtcJoined s \<Longrightarrow> \<not> leaveOk io \<Longrightarrow>
   callId (engine_of (await (destory io) s)) = callId s
   \<and> remoteUserId (engine_of (await (destory io) s)) = remoteUserId s
   \<and> cancelCallTimer (engine_of (await (destory io) s)) = cancelCallTimer s
   \<and> rtcJoined (engine_of (await (destory io) s))"
  by (simp add: await_def case_prod_beta destory_def Let_def option.case_eq_if)

text \<open>A send and a teardown under \<open>Promise.all\<close>.\<close>

lemma isReset_simps [simp]:
  "isReset (emit e s) = isReset s"
  "isReset (callEventChange ev s) = isReset s"
  "isReset (callError a b s) = isReset s"
  "isReset (callStateChange st r er i s) = isReset s"
  by (simp_all add: isReset_def)

lemma sendAndDestory_ext:
  "ext s (engine_of (await (Promise_all (publishMessage io u m) (destory io)) s))"
  by (simp add: await_def Promise_all_def publishMessage_def case_prod_beta
      destory_settled_ext destory_started_ext[THEN ext_trans[rotated]] ext_trans[OF _ destory_started_ext])

lemma sendAndDestory_thrown:
  "thrown (await (Promise_all (publishMessage io u m) (destory io)) s) =
     (if \<not> sendMessageOk io then Some SendMessageError
      else if rtcJoined s \<and> \<not> leaveOk io then Some RtcError else None)"
  by (simp add: await_def Promise_all_def publishMessage_def case_prod_beta
      destory_settled_thrown)

lemma sendAndDestory_fields [simp]:
  "state (engine_of (await (Promise_all (publishMessage io u m) (destory io)) s)) = state s"
  "prepareConfig (engine_of (await (Promise_all (publishMessage io u m) (destory io)) s))
     = prepareConfig s"
  "userId (engine_of (await (Promise_all (publishMessage io u m) (destory io)) s)) = userId s"
  "callType (engine_of (await (Promise_all (publishMessage io u m) (destory io)) s)) = callType s"
  by (simp_all add: await_def Promise_all_def publishMessage_def case_prod_beta)

lemma sendAndDestory_reset:
  "rtcJoined s \<longrightarrow> leaveOk io \<Longrightarrow>
   isReset (engine_of (await (Promise_all (publishMessage io u m) (destory io)) s))"
  by (cases "rtcJoined s")
     (simp_all add: await_def Promise_all_def publishMessage_def case_prod_beta
       destory_settled_reset destory_settled_skip destory_started_reset)

lemma sendAndDestory_added:
  "added s (engine_of (await (Promise_all (publishMessage io u m) (destory io)) s)) =
     SendMessage u (m\<lparr>m_callId := callId s\<rparr>) # destoryStarted s
     @ sendSettled io @ destorySettled io s"
proof -
  define s1 where "s1 = emit (SendMessage u (m\<lparr>m_callId := callId s\<rparr>)) s"
  define s2 where "s2 = fst (destory io s1)"
  define s3 where "s3 = (if sendMessageOk io then s2 else callError sendMessageFail message s2)"
  define s4 where "s4 = engine_of (snd (destory io s1) s3)"
  have fin: "engine_of (await (Promise_all (publishMessage io u m) (destory io)) s) = s4"
    by (simp add: await_def Promise_all_def publishMessage_def case_prod_beta
        s1_def s2_def s3_def s4_def)
  have e1: "ext s s1" "added s s1 = [SendMessage u (m\<lparr>m_callId := callId s\<rparr>)]"
    by (simp_all add: s1_def)
  have e2: "ext s1 s2" "added s1 s2 = destoryStarted s"
    by (simp_all add: s2_def destory_started_ext destory_started_added s1_def)
  have e3: "ext s2 s3" "added s2 s3 = sendSettled io"
    by (simp_all add: s3_def sendSettled_def)
  have k: "rtcJoined s1 \<longrightarrow> prepareConfig s3 = prepareConfig s1
             \<and> cancelCallTimer s3 = cancelCallTimer s1"
    by (simp add: s3_def s2_def destory_started_kept)
  have e4: "ext s3 s4" "added s3 s4 = destorySettled io s"
    using destory_settled_added'[OF k, of io]
    by (simp_all add: s4_def destory_settled_ext s1_def)
  have "added s s4 = added s s1 @ added s1 s2 @ added s2 s3 @ added s3 s4"
    using e1(1) e2(1) e3(1) e4(1)
    by (metis added_ext ext_trans append.assoc)
  then show ?thesis
    by (simp add: fin e1 e2 e3 e4)
qed

subsection \<open>Properties that asynchronous methods keep\<close>

lemma apresD1: "apres P a \<Longrightarrow> P s \<Longrightarrow> P (fst (a s))"
  by (simp add: apres_def)

lemma apresD2: "apres P a \<Longrightarrow> P t \<Longrightarrow> P (engine_of (snd (a s) t))"
  by (simp add: apres_def)

lemma apres_await: "apres P a \<Longrightarrow> P s \<Longrightarrow> P (engine_of (await a s))"
  by (simp add: apres_def await_def case_prod_beta)

lemma apres_Promise_all:
  assumes a: "apres P a" and b: "apres P b"
  shows "apres P (Promise_all a b)"
  unfolding apres_def
proof (intro allI impI conjI)
  fix s assume s: "P s"
  have "fst (Promise_all a b s) = fst (b (fst (a s)))"
    by (simp add: Promise_all_def case_prod_beta)
  then show "P (fst (Promise_all a b s))"
    using apresD1[OF b apresD1[OF a s]] by simp
next
  fix s t assume t: "P t"
  define s1 where "s1 = fst (a s)"
  have k: "snd (Promise_all a b s) t =
      (case snd (a s) t of
         Ok u \<Rightarrow> snd (b s1) u
       | Throw e u \<Rightarrow> Throw e (engine_of (snd (b s1) u)))"
    by (simp add: Promise_all_def case_prod_beta s1_def cong: result.case_cong)
  have 1: "P (engine_of (snd (a s) t))" by (rule apresD2[OF a t])
  show "P (engine_of (snd (Promise_all a b s) t))"
    unfolding k using 1 apresD2[OF b, of _ s1]
    by (cases "snd (a s) t") simp_all
qed

lemma pres_andThen:
  "P (engine_of r) \<Longrightarrow> (\<And>t. P t \<Longrightarrow> P (engine_of (f t))) \<Longrightarrow> P (engine_of (andThen r f))"
  by (cases r) simp_all

lemma pres_detached:
  "P (engine_of r) \<Longrightarrow> (\<And>t. P t \<Longrightarrow> P (engine_of (k t))) \<Longrightarrow> P (engine_of (detached k r))"
  by (cases r) (simp_all add: detached_def)

lemma kept_simps [simp]:
  "kept (emit e s) = kept s"
  "kept (callEventChange ev s) = kept s"
  "kept (callError a b s) = kept s"
  "kept (CallInfo_add m s) = kept s"
  "kept (playLocalVideo s) = kept s"
  "kept (s\<lparr>localTracks := x\<rparr>) = kept s"
  "kept (s\<lparr>remoteTracks := y\<rparr>) = kept s"
  "kept (s\<lparr>rtcJoined := z\<rparr>) = kept s"
  "kept (s\<lparr>callInfo := w\<rparr>) = kept s"
  by (simp_all add: kept_def)

lemma keptD:
  "kept t = kept s \<Longrightarrow> state t = state s \<and> callId t = callId s
     \<and> remoteUserId t = remoteUserId s \<and> cancelCallTimer t = cancelCallTimer s
     \<and> prepareConfig t = prepareConfig s \<and> userId t = userId s
     \<and> receiveRemoteFirstFrameDecoded t = receiveRemoteFirstFrameDecoded s
     \<and> callType t = callType s"
  by (simp add: kept_def)

lemma publishMessage_kept: "apres (\<lambda>t. kept t = c) (publishMessage io u m)"
  by (simp add: apres_def publishMessage_def)

lemma publishMessage_ext: "apres (ext s0) (publishMessage io u m)"
  by (simp add: apres_def publishMessage_def)

lemma createLocalTracks_kept: "apres (\<lambda>t. kept t = c) (createLocalTracks io)"
  by (simp add: apres_def createLocalTracks_def)

lemma createLocalTracks_ext: "apres (ext s0) (createLocalTracks io)"
  by (simp add: apres_def createLocalTracks_def)

lemma rtcJoin_kept: "apres (\<lambda>t. kept t = c) (rtcJoin io)"
  by (simp add: apres_def rtcJoin_def)

lemma rtcJoin_ext: "apres (ext s0) (rtcJoin io)"
  by (simp add: apres_def rtcJoin_def)

lemma rtcPublish_kept: "apres (\<lambda>t. kept t = c) (rtcPublish io)"
  by (simp add: apres_def rtcPublish_def)

lemma rtcPublish_ext: "apres (ext s0) (rtcPublish io)"
  by (simp add: apres_def rtcPublish_def)

lemma rtcJoinAndPublish_pres:
  assumes c: "apres P (createLocalTracks io)" and j: "apres P (rtcJoin io)"
    and p: "apres P (rtcPublish io)"
    and v: "\<And>t. P t \<Longrightarrow> P (playLocalVideo t)"
    and e: "\<And>t. P t \<Longrightarrow> P (callError rtcOccurError rtc t)"
  shows "apres P (rtcJoinAndPublish io)"
proof -
  have a: "apres P (Promise_all (createLocalTracks io) (rtcJoin io))"
    by (rule apres_Promise_all[OF c j])
  show ?thesis
    unfolding apres_def
  proof (intro allI impI conjI)
    fix s assume "P s"
    then show "P (fst (rtcJoinAndPublish io s))"
      using apresD1[OF a] by (simp add: rtcJoinAndPublish_def case_prod_beta)
  next
    fix s t assume "P t"
    define k where "k = snd (Promise_all (createLocalTracks io) (rtcJoin io) s)"
    have 1: "P (engine_of (k t))"
      unfolding k_def by (rule apresD2[OF a \<open>P t\<close>])
    have 2: "P (engine_of (andThen (k t) (\<lambda>u. await (rtcPublish io) (playLocalVideo u))))"
      by (rule pres_andThen[where P=P, OF 1]) (simp add: apres_await[OF p] v)
    define r where "r = andThen (k t) (\<lambda>u. await (rtcPublish io) (playLocalVideo u))"
    have 3: "snd (rtcJoinAndPublish io s) t =
        (case r of Ok v \<Rightarrow> Ok v | Throw e v \<Rightarrow> Throw e (callError rtcOccurError rtc v))"
      by (simp add: rtcJoinAndPublish_def case_prod_beta k_def r_def)
    show "P (engine_of (snd (rtcJoinAndPublish io s) t))"
      unfolding 3 using 2 e by (cases r) (simp_all add: r_def[symmetric])
  qed
qed

lemma rtcJoinAndPublish_kept: "apres (\<lambda>t. kept t = c) (rtcJoinAndPublish io)"
  by (rule rtcJoinAndPublish_pres)
     (simp_all add: createLocalTracks_kept rtcJoin_kept rtcPublish_kept)

lemma rtcJoinAndPublish_ext: "apres (ext s0) (rtcJoinAndPublish io)"
  by (rule rtcJoinAndPublish_pres)
     (simp_all add: createLocalTracks_ext rtcJoin_ext rtcPublish_ext)

lemma effects_ext: "ext s t \<Longrightarrow> effects t = effects s @ added s t"
  by (auto simp add: ext_def added_def effects_def)

subsection \<open>The timer\<close>

lemma autoCancelCall_fields [simp]:
  "prepareConfig (autoCancelCall b s) = prepareConfig s"
  "state (autoCancelCall b s) = state s"
  "remoteUserId (autoCancelCall b s) = remoteUserId s"
  "callId (autoCancelCall b s) = callId s"
  "userId (autoCancelCall b s) = userId s"
  "callType (autoCancelCall b s) = callType s"
  "receiveRemoteFirstFrameDecoded (autoCancelCall b s) = receiveRemoteFirstFrameDecoded s"
  "rtcJoined (autoCancelCall b s) = rtcJoined s"
  "localTracks (autoCancelCall b s) = localTracks s"
  "remoteTracks (autoCancelCall b s) = remoteTracks s"
  "callInfo (autoCancelCall b s) = callInfo s"
  by (simp_all add: autoCancelCall_def Let_def option.case_eq_if)

lemma autoCancelCall_timer:
  "cancelCallTimer (autoCancelCall b s) = timerAfter b (remoteUserId s) s"
  by (simp add: autoCancelCall_def timerAfter_def Let_def split: option.splits)

lemma ext_autoCancelCall [simp]: "ext s t \<Longrightarrow> ext s (autoCancelCall b t)"
  by (simp add: autoCancelCall_def Let_def option.case_eq_if)

lemma added_autoCancelCall:
  "ext s t \<Longrightarrow> added s (autoCancelCall b t) = added s t @ timerEffects b (remoteUserId t) t"
  by (cases "cancelCallTimer t")
     (simp_all add: autoCancelCall_def timerEffects_def Let_def split: option.splits)

subsection \<open>Joining the media channel\<close>

lemma rtcJoinAndPublish_started:
  "added s (fst (rtcJoinAndPublish io s)) = mediaStarted s"
  by (simp add: rtcJoinAndPublish_def Promise_all_def createLocalTracks_def rtcJoin_def
      case_prod_beta mediaStarted_def)

lemma mediaStarted_cong:
  "rtcJoined t = rtcJoined s \<Longrightarrow> prepareConfig t = prepareConfig s
   \<Longrightarrow> mediaStarted t = mediaStarted s"
  by (simp add: mediaStarted_def)

lemma timerEffects_cong:
  "cancelCallTimer t = cancelCallTimer s \<Longrightarrow> prepareConfig t = prepareConfig s
   \<Longrightarrow> timerEffects b u t = timerEffects b u s"
  by (auto simp add: timerEffects_def split: option.splits)

lemma timerAfter_cong:
  "cancelCallTimer t = cancelCallTimer s \<Longrightarrow> prepareConfig t = prepareConfig s
   \<Longrightarrow> timerAfter b u t = timerAfter b u s"
  by (auto simp add: timerAfter_def split: option.splits)

lemma CallInfo_start_fields [simp]:
  "prepareConfig (CallInfo_start s) = prepareConfig s"
  "state (CallInfo_start s) = state s"
  "remoteUserId (CallInfo_start s) = remoteUserId s"
  "callId (CallInfo_start s) = callId s"
  "userId (CallInfo_start s) = userId s"
  "callType (CallInfo_start s) = callType s"
  "cancelCallTimer (CallInfo_start s) = cancelCallTimer s"
  "receiveRemoteFirstFrameDecoded (CallInfo_start s) = receiveRemoteFirstFrameDecoded s"
  "rtcJoined (CallInfo_start s) = rtcJoined s"
  "localTracks (CallInfo_start s) = localTracks s"
  "remoteTracks (CallInfo_start s) = remoteTracks s"
  "trace (CallInfo_start s) = trace s"
  "callInfo (CallInfo_start s) = [M_start]"
  by (simp_all add: CallInfo_start_def)

lemma rtcJoinAndPublish_started_kept: "kept (fst (rtcJoinAndPublish io s)) = kept s"
  using apresD1[OF rtcJoinAndPublish_kept, of s "kept s" io] by simp

lemma rtcJoinAndPublish_started_fields [simp]:
  "prepareConfig (fst (rtcJoinAndPublish io s)) = prepareConfig s"
  "state (fst (rtcJoinAndPublish io s)) = state s"
  "remoteUserId (fst (rtcJoinAndPublish io s)) = remoteUserId s"
  "callId (fst (rtcJoinAndPublish io s)) = callId s"
  "userId (fst (rtcJoinAndPublish io s)) = userId s"
  "callType (fst (rtcJoinAndPublish io s)) = callType s"
  "cancelCallTimer (fst (rtcJoinAndPublish io s)) = cancelCallTimer s"
  "receiveRemoteFirstFrameDecoded (fst (rtcJoinAndPublish io s))
     = receiveRemoteFirstFrameDecoded s"
  using keptD[OF rtcJoinAndPublish_started_kept, of io s] by simp_all

lemma rtcJoinAndPublish_callInfo:
  "apres (\<lambda>t. \<exists>ms. callInfo t = M_start # ms) (rtcJoinAndPublish io)"
  by (rule rtcJoinAndPublish_pres)
     (auto simp add: apres_def createLocalTracks_def rtcJoin_def rtcPublish_def)

lemma rtcJoinAndPublish_started_callInfo:
  "callInfo (fst (rtcJoinAndPublish io s)) = callInfo s"
  by (simp add: rtcJoinAndPublish_def Promise_all_def createLocalTracks_def rtcJoin_def
      case_prod_beta)

lemma rtcJoinAndPublish_started_trace:
  "trace (fst (rtcJoinAndPublish io s)) = trace s @ map (\<lambda>e. observe e s) (mediaStarted s)"
  by (simp add: rtcJoinAndPublish_def Promise_all_def createLocalTracks_def rtcJoin_def
      case_prod_beta mediaStarted_def callEventChange_def observe_def)

lemma trace_autoCancelCall:
  "trace (autoCancelCall b s) = trace s @ timerObservations b s"
  by (cases "cancelCallTimer s")
     (simp_all add: autoCancelCall_def timerObservations_def Let_def observe_def
       split: option.splits)

lemma timerObservations_cong:
  "state t = state s \<Longrightarrow> callId t = callId s \<Longrightarrow> cancelCallTimer t = cancelCallTimer s
   \<Longrightarrow> remoteUserId t = remoteUserId s \<Longrightarrow> callType t = callType s
   \<Longrightarrow> callInfo t = callInfo s \<Longrightarrow> prepareConfig t = prepareConfig s
   \<Longrightarrow> receiveRemoteFirstFrameDecoded t = receiveRemoteFirstFrameDecoded s
   \<Longrightarrow> timerObservations b t = timerObservations b s"
  by (simp add: timerObservations_def observe_def option.case_eq_if)

lemma what_timerObservations:
  "map what (timerObservations b s) = timerEffects b (remoteUserId s) s"
  by (simp add: timerObservations_def timerEffects_def option.case_eq_if)

subsection \<open>An engine that holds its call id\<close>

lemma idSince_emit: "idSince n v t \<Longrightarrow> idSince n v (emit e t)"
  by (simp add: idSince_def drop_Cons')

lemma idSince_update:
  "idSince n v (t\<lparr>state := a\<rparr>) = idSince n v t"
  "idSince n v (t\<lparr>remoteUserId := c\<rparr>) = idSince n v t"
  "idSince n v (t\<lparr>callType := d\<rparr>) = idSince n v t"
  "idSince n v (t\<lparr>callInfo := e\<rparr>) = idSince n v t"
  "idSince n v (t\<lparr>localTracks := f\<rparr>) = idSince n v t"
  "idSince n v (t\<lparr>remoteTracks := g\<rparr>) = idSince n v t"
  "idSince n v (t\<lparr>rtcJoined := h\<rparr>) = idSince n v t"
  "idSince n v (t\<lparr>receiveRemoteFirstFrameDecoded := i\<rparr>) = idSince n v t"
  "idSince n v (t\<lparr>cancelCallTimer := j\<rparr>) = idSince n v t"
  "idSince n v (t\<lparr>prepareConfig := k\<rparr>) = idSince n v t"
  by (simp_all add: idSince_def)

lemma idSince_prims:
  "idSince n v t \<Longrightarrow> idSince n v (callEventChange ev t)"
  "idSince n v t \<Longrightarrow> idSince n v (callError a b t)"
  "idSince n v t \<Longrightarrow> idSince n v (CallInfo_add m t)"
  "idSince n v t \<Longrightarrow> idSince n v (playLocalVideo t)"
  by (simp_all add: callEventChange_def callError_def CallInfo_add_def playLocalVideo_def
      idSince_emit idSince_update split: option.splits)

lemma idSince_publishMessage: "apres (idSince n v) (publishMessage io u m)"
  by (simp add: apres_def publishMessage_def idSince_emit idSince_prims)

lemma idSince_rtcJoinAndPublish: "apres (idSince n v) (rtcJoinAndPublish io)"
  by (rule rtcJoinAndPublish_pres)
     (simp_all add: apres_def createLocalTracks_def rtcJoin_def rtcPublish_def
       idSince_emit idSince_prims idSince_update)

subsection \<open>The command \<open>call\<close>\<close>

text \<open>
  \<open>call\<close> in state \<open>prepared\<close>, up to the point where the invite has been handed
  to the messaging manager, and what is left of the engine at the end.
\<close>

lemma call_parts:
  fixes s :: CallApi and ctype :: "CallType option" and remote :: int
    and uuid :: string and io :: outcomes
  assumes p: "state s = prepared"
  defines "ct \<equiv> (case ctype of None \<Rightarrow> video | Some c \<Rightarrow> c)"
  defines "s6 \<equiv> (callEventChange E_onCalling
                   (callStateChange calling
                      (if ct = video then R_localVideoCall else R_localAudioCall) (Some [])
                      (CallPeers remote (userId s))
                      ((CallInfo_start s)\<lparr>remoteUserId := remote, callType := ct\<rparr>)))
                 \<lparr>callId := uuid\<rparr>"
  defines "s8 \<equiv> fst (rtcJoinAndPublish io (autoCancelCall True s6))"
  defines "msg \<equiv> (envelope (userId s) remote (if ct = video then VideoCall else AudioCall))
                    \<lparr>fromRoomId := roomId (prepareConfig s)\<rparr>"
  defines "s9 \<equiv> fst (publishMessage io remote msg s8)"
  defines "sA \<equiv> s\<lparr>callInfo := [M_start], remoteUserId := remote, callType := ct,
                    state := calling\<rparr>"
  defines "sB \<equiv> sA\<lparr>callId := uuid\<rparr>"
  defines "sC \<equiv> sB\<lparr>cancelCallTimer := timerAfter True remote s\<rparr>"
  shows "ext s s9"
    and "added s s9 =
           [CallStateChanged calling
              (if ct = video then R_localVideoCall else R_localAudioCall) (Some [])
              (CallPeers remote (userId s)),
            CallEventChanged E_onCalling]
           @ timerEffects True remote s @ mediaStarted s
           @ [SendMessage remote (msg\<lparr>m_callId := uuid\<rparr>)]"
    and "ext s9 (engine_of (call io uuid remote ctype s))"
    and "kept (engine_of (call io uuid remote ctype s)) =
           (calling, uuid, remote, timerAfter True remote s, prepareConfig s, userId s,
            receiveRemoteFirstFrameDecoded s, ct)"
    and "\<exists>ms. callInfo (engine_of (call io uuid remote ctype s)) = M_start # ms"
    and "trace s9 =
           trace s
           @ [observe (CallStateChanged calling
                 (if ct = video then R_localVideoCall else R_localAudioCall) (Some [])
                 (CallPeers remote (userId s))) sA,
              observe (CallEventChanged E_onCalling) sA]
           @ timerObservations True sB
           @ map (\<lambda>e. observe e sC)
               (mediaStarted s @ [SendMessage remote (msg\<lparr>m_callId := uuid\<rparr>)])"
    and "idSince (length (trace s) + 2) uuid (engine_of (call io uuid remote ctype s))"
proof -
  define s7 where "s7 = autoCancelCall True s6"
  define media where "media = snd (rtcJoinAndPublish io s7)"
  define sent where "sent = snd (publishMessage io remote msg s8)"
  define fin where "fin = (\<lambda>t. Ok (callEventChange E_remoteUserRecvCall
                                 (CallInfo_add M_remoteUserRecvCall t)))"
  have c: "call io uuid remote ctype s = detached media (andThen (sent s9) fin)"
    using p
    by (simp add: call_def Let_def case_prod_beta await_def s6_def s7_def s8_def s9_def
        msg_def media_def sent_def fin_def ct_def
        cong: result.case_cong)
  have f6: "state s6 = calling" "callId s6 = uuid" "remoteUserId s6 = remote"
     "cancelCallTimer s6 = cancelCallTimer s" "prepareConfig s6 = prepareConfig s"
     "userId s6 = userId s" "receiveRemoteFirstFrameDecoded s6 = receiveRemoteFirstFrameDecoded s"
     "callType s6 = ct" "rtcJoined s6 = rtcJoined s"
    by (simp_all add: s6_def CallInfo_start_def)
  have e6: "ext s s6"
    by (simp add: s6_def ext_def[of s "CallInfo_start s"])
  have a6: "added s s6 = [CallStateChanged calling
              (if ct = video then R_localVideoCall else R_localAudioCall) (Some [])
              (CallPeers remote (userId s)), CallEventChanged E_onCalling]"
    using p by (simp add: s6_def CallInfo_start_def added_def effects_def
        callEventChange_def callStateChange_def)
  have i6: "callInfo s6 = [M_start]"
    by (simp add: s6_def)
  have t6: "trace s6 = trace s
           @ [observe (CallStateChanged calling
                 (if ct = video then R_localVideoCall else R_localAudioCall) (Some [])
                 (CallPeers remote (userId s))) sA,
              observe (CallEventChanged E_onCalling) sA]"
    using p by (simp add: s6_def sA_def CallInfo_start_def
        callEventChange_def callStateChange_def observe_def)
  have t7: "trace s7 = trace s6 @ timerObservations True sB"
    unfolding s7_def trace_autoCancelCall
    by (simp add: timerObservations_cong[of s6 sB] f6 i6 sB_def sA_def)
  have e7: "ext s6 s7" "added s6 s7 = timerEffects True remote s"
    using added_autoCancelCall[OF ext_refl, of s6 True]
    by (simp_all add: s7_def f6 timerEffects_cong[of s6 s])
  have k7: "kept s7 = (calling, uuid, remote, timerAfter True remote s, prepareConfig s,
            userId s, receiveRemoteFirstFrameDecoded s, ct)"
    by (simp add: kept_def s7_def f6 autoCancelCall_timer timerAfter_cong[of s6 s])
  have s8': "s8 = fst (rtcJoinAndPublish io s7)"
    by (simp add: s8_def s7_def)
  have f7: "rtcJoined s7 = rtcJoined s" "prepareConfig s7 = prepareConfig s"
    by (simp_all add: s7_def f6)
  have e8: "ext s7 s8" "added s7 s8 = mediaStarted s" "kept s8 = kept s7"
    unfolding s8'
    using apresD1[OF rtcJoinAndPublish_ext ext_refl, of s7 io]
    by (simp_all add: rtcJoinAndPublish_started rtcJoinAndPublish_started_kept
        mediaStarted_cong[OF f7])
  have i7: "callInfo s7 = [M_start]" "callInfo s8 = [M_start]"
    unfolding s8' by (simp_all add: s7_def i6 rtcJoinAndPublish_started_callInfo)
  have o7: "\<And>e. observe e s7 = observe e sC"
    using k7 by (intro observe_cong) (simp_all add: kept_def i7 sC_def sB_def sA_def)
  have o8: "\<And>e. observe e s8 = observe e sC"
    using k7 e8(3) by (intro observe_cong) (simp_all add: kept_def i7 sC_def sB_def sA_def)
  have t8: "trace s8 = trace s7 @ map (\<lambda>e. observe e sC) (mediaStarted s)"
    unfolding s8' by (simp add: rtcJoinAndPublish_started_trace o7 mediaStarted_cong[OF f7])
  have f8: "callId s8 = uuid" "userId s8 = userId s"
    unfolding s8' by (simp_all add: s7_def f6)
  have e9: "ext s8 s9" "added s8 s9 = [SendMessage remote (msg\<lparr>m_callId := uuid\<rparr>)]"
     "kept s9 = kept s8"
    by (simp_all add: s9_def publishMessage_def f8)
  have t9: "trace s9 = trace s8 @ [observe (SendMessage remote (msg\<lparr>m_callId := uuid\<rparr>)) sC]"
    by (simp add: s9_def publishMessage_def f8 o8)
  have tr: "trace s9 =
           trace s
           @ [observe (CallStateChanged calling
                 (if ct = video then R_localVideoCall else R_localAudioCall) (Some [])
                 (CallPeers remote (userId s))) sA,
              observe (CallEventChanged E_onCalling) sA]
           @ timerObservations True sB
           @ map (\<lambda>e. observe e sC)
               (mediaStarted s @ [SendMessage remote (msg\<lparr>m_callId := uuid\<rparr>)])"
    by (simp add: t9 t8 t7 t6)
  have c9: "callId s9 = uuid"
    using e9(3) e8(3) k7 by (simp add: kept_def)
  have "list_all (\<lambda>ob. seen_callId ob = uuid) (timerObservations True sB)"
    by (simp add: timerObservations_def sB_def option.case_eq_if)
  moreover have "list_all (\<lambda>ob. seen_callId ob = uuid)
       (map (\<lambda>e. observe e sC)
               (mediaStarted s @ [SendMessage remote (msg\<lparr>m_callId := uuid\<rparr>)]))"
    by (simp add: list_all_iff sC_def sB_def)
  ultimately have id9: "idSince (length (trace s) + 2) uuid s9"
    by (simp add: idSince_def c9 tr)
  have x: "ext s s9"
    using e6 e7(1) e8(1) e9(1) by (blast intro: ext_trans)
  have "added s s9 = added s s6 @ added s6 s7 @ added s7 s8 @ added s8 s9"
    using e6 e7(1) e8(1) e9(1) by (metis added_ext ext_trans append.assoc)
  then have a: "added s s9 =
           [CallStateChanged calling
              (if ct = video then R_localVideoCall else R_localAudioCall) (Some [])
              (CallPeers remote (userId s)),
            CallEventChanged E_onCalling]
           @ timerEffects True remote s @ mediaStarted s
           @ [SendMessage remote (msg\<lparr>m_callId := uuid\<rparr>)]"
    by (simp add: a6 e7 e8 e9)
  have pres: "\<And>P. P s9 \<Longrightarrow> apres P (publishMessage io remote msg)
       \<Longrightarrow> apres P (rtcJoinAndPublish io)
       \<Longrightarrow> (\<And>t. P t \<Longrightarrow> P (callEventChange E_remoteUserRecvCall
                                 (CallInfo_add M_remoteUserRecvCall t)))
       \<Longrightarrow> P (engine_of (call io uuid remote ctype s))"
  proof -
    fix P assume 9: "P s9" and pm: "apres P (publishMessage io remote msg)"
      and rj: "apres P (rtcJoinAndPublish io)"
      and f: "\<And>t. P t \<Longrightarrow> P (callEventChange E_remoteUserRecvCall
                                 (CallInfo_add M_remoteUserRecvCall t))"
    have 1: "P (engine_of (sent s9))"
      unfolding sent_def by (rule apresD2[OF pm 9])
    have 2: "P (engine_of (andThen (sent s9) fin))"
      by (rule pres_andThen[where P=P, OF 1]) (simp add: fin_def f)
    show "P (engine_of (call io uuid remote ctype s))"
      unfolding c media_def
      by (rule pres_detached[where P=P, OF 2]) (rule apresD2[OF rj])
  qed
  have y: "ext s9 (engine_of (call io uuid remote ctype s))"
    by (rule pres[where P="ext s9"])
       (simp_all add: publishMessage_ext rtcJoinAndPublish_ext)
  have "kept (engine_of (call io uuid remote ctype s)) = kept s7"
    by (rule pres[where P="\<lambda>t. kept t = kept s7"])
       (simp_all add: publishMessage_kept rtcJoinAndPublish_kept e8 e9)
  then have k: "kept (engine_of (call io uuid remote ctype s)) =
           (calling, uuid, remote, timerAfter True remote s, prepareConfig s, userId s,
            receiveRemoteFirstFrameDecoded s, ct)"
    by (simp add: k7)
  have i9: "\<exists>ms. callInfo s9 = M_start # ms"
    unfolding s9_def s8_def
    using apresD1[OF rtcJoinAndPublish_callInfo, of "autoCancelCall True s6" io]
    by (simp add: publishMessage_def s6_def)
  have i7': "\<exists>ms. callInfo s7 = M_start # ms" by (simp add: s7_def s6_def)
  have i8: "\<exists>ms. callInfo s8 = M_start # ms"
    unfolding s8_def
    using apresD1[OF rtcJoinAndPublish_callInfo, of "autoCancelCall True s6" io]
    by (simp add: s6_def)
  have ci: "\<exists>ms. callInfo (engine_of (call io uuid remote ctype s)) = M_start # ms"
  proof (rule pres[where P="\<lambda>t. \<exists>ms. callInfo t = M_start # ms"])
    show "\<exists>ms. callInfo s9 = M_start # ms" by (rule i9)
    show "apres (\<lambda>t. \<exists>ms. callInfo t = M_start # ms) (publishMessage io remote msg)"
      by (simp add: apres_def publishMessage_def)
    show "apres (\<lambda>t. \<exists>ms. callInfo t = M_start # ms) (rtcJoinAndPublish io)"
      by (rule rtcJoinAndPublish_callInfo)
    show "\<And>t. \<exists>ms. callInfo t = M_start # ms \<Longrightarrow>
         \<exists>ms. callInfo (callEventChange E_remoteUserRecvCall
                               (CallInfo_add M_remoteUserRecvCall t)) = M_start # ms"
      by auto
  qed
  have ids: "idSince (length (trace s) + 2) uuid (engine_of (call io uuid remote ctype s))"
    by (rule pres[where P="idSince (length (trace s) + 2) uuid", OF id9])
       (simp_all add: idSince_publishMessage idSince_rtcJoinAndPublish idSince_prims)
  show "ext s s9" by (rule x)
  show "added s s9 =
           [CallStateChanged calling
              (if ct = video then R_localVideoCall else R_localAudioCall) (Some [])
              (CallPeers remote (userId s)),
            CallEventChanged E_onCalling]
           @ timerEffects True remote s @ mediaStarted s
           @ [SendMessage remote (msg\<lparr>m_callId := uuid\<rparr>)]" by (rule a)
  show "ext s9 (engine_of (call io uuid remote ctype s))" by (rule y)
  show "kept (engine_of (call io uuid remote ctype s)) =
           (calling, uuid, remote, timerAfter True remote s, prepareConfig s, userId s,
            receiveRemoteFirstFrameDecoded s, ct)" by (rule k)
  show "\<exists>ms. callInfo (engine_of (call io uuid remote ctype s)) = M_start # ms"
    by (rule ci)
  show "trace s9 =
           trace s
           @ [observe (CallStateChanged calling
                 (if ct = video then R_localVideoCall else R_localAudioCall) (Some [])
                 (CallPeers remote (userId s))) sA,
              observe (CallEventChanged E_onCalling) sA]
           @ timerObservations True sB
           @ map (\<lambda>e. observe e sC)
               (mediaStarted s @ [SendMessage remote (msg\<lparr>m_callId := uuid\<rparr>)])"
    by (rule tr)
  show "idSince (length (trace s) + 2) uuid (engine_of (call io uuid remote ctype s))"
    by (rule ids)
qed

subsection \<open>The command \<open>accept\<close>\<close>

lemma held_simps [simp]:
  "held (emit e s) = held s"
  "held (callEventChange ev s) = held s"
  "held (callError a b s) = held s"
  "held (callStateChange st r er i s) = held s"
  "held (CallInfo_add m s) = held s"
  "held (engine_of (checkAppendView s)) = held s"
  by (simp_all add: held_def)

lemma held_kept: "kept t = kept s \<Longrightarrow> held t = held s"
  by (simp add: held_def kept_def)

lemma accept_engine:
  "engine_of (accept io u s) =
     (if state s \<noteq> calling then callEventChange E_stateMismatch s
      else (if sendMessageOk io then id else callError sendMessageFail message)
             (engine_of (checkAppendView
                (emit (SendMessage u ((envelope (userId s) u Accept)\<lparr>m_callId := callId s\<rparr>))
                   (callStateChange connecting R_localAccepted None NoInfo
                      (CallInfo_add M_acceptCall (callEventChange E_localAccepted s)))))))"
proof (cases "state s = calling")
  case False
  then show ?thesis by (simp add: accept_def)
next
  case True
  define s4 where "s4 = emit (SendMessage u ((envelope (userId s) u Accept)\<lparr>m_callId := callId s\<rparr>))
                   (callStateChange connecting R_localAccepted None NoInfo
                      (CallInfo_add M_acceptCall (callEventChange E_localAccepted s)))"
  show ?thesis
    using True
    by (cases "checkAppendView s4")
       (simp_all add: accept_def Let_def publishMessage_def detached_def s4_def)
qed

lemma accept_held [simp]: "held (engine_of (accept io u s)) = held s"
  by (simp add: accept_engine)

lemma accept_state:
  "state s = calling \<Longrightarrow>
   state (engine_of (accept io u s)) = (if frameReady s then connected else connecting)"
  by (simp add: accept_engine checkAppendView_state frameReady_def)

subsection \<open>An inbound invite\<close>

lemma receiveVideoCall_held:
  assumes g: "isCallingUser (fromUserId data) s"
  shows "callId (engine_of (receiveVideoCall io data s)) = m_callId data"
    and "remoteUserId (engine_of (receiveVideoCall io data s)) = fromUserId data"
    and "cancelCallTimer (engine_of (receiveVideoCall io data s))
           = timerAfter False (fromUserId data) s"
    and "state (engine_of (receiveVideoCall io data s)) = calling
         \<or> state (engine_of (receiveVideoCall io data s)) = connecting
         \<or> state (engine_of (receiveVideoCall io data s)) = connected"
proof -
  define s4 where "s4 = (CallInfo_start s)
     \<lparr>callId := m_callId data, remoteUserId := fromUserId data,
      prepareConfig := (prepareConfig s)\<lparr>roomId := fromRoomId data\<rparr>\<rparr>"
  define s7 where "s7 = callEventChange E_onCalling
      (callStateChange calling R_remoteVideoCall (Some [])
         (CallPeers (m_remoteUserId data) (fromUserId data)) (autoCancelCall False s4))"
  define d where "d = await (rtcJoinAndPublish io) s7"
  define f where "f = (\<lambda>t. if autoAccept (prepareConfig t) = Some True
                    then accept io (remoteUserId t) t else Ok t)"
  have r: "receiveVideoCall io data s = andThen d f"
    using g by (simp add: receiveVideoCall_def Let_def s4_def s7_def d_def f_def)
  have h7: "held s7 = (m_callId data, fromUserId data, timerAfter False (fromUserId data) s,
                       (prepareConfig s)\<lparr>roomId := fromRoomId data\<rparr>, userId s)"
       "state s7 = calling"
    by (simp_all add: s7_def held_def s4_def autoCancelCall_timer timerAfter_def
        split: option.splits)
  have kd: "kept (engine_of d) = kept s7"
    unfolding d_def by (rule apres_await[OF rtcJoinAndPublish_kept]) simp
  have hd: "held (engine_of d) = held s7" "state (engine_of d) = calling"
    using held_kept[OF kd] keptD[OF kd] h7(2) by simp_all
  have hf: "held (engine_of (andThen d f)) = held s7"
    using hd(1) by (cases d) (simp_all add: f_def)
  have sf: "state (engine_of (andThen d f)) = calling
         \<or> state (engine_of (andThen d f)) = connecting
         \<or> state (engine_of (andThen d f)) = connected"
    using hd(2) by (cases d) (simp_all add: f_def accept_state)
  from hf h7(1) sf
  show "callId (engine_of (receiveVideoCall io data s)) = m_callId data"
    and "remoteUserId (engine_of (receiveVideoCall io data s)) = fromUserId data"
    and "cancelCallTimer (engine_of (receiveVideoCall io data s))
           = timerAfter False (fromUserId data) s"
    and "state (engine_of (receiveVideoCall io data s)) = calling
         \<or> state (engine_of (receiveVideoCall io data s)) = connecting
         \<or> state (engine_of (receiveVideoCall io data s)) = connected"
    unfolding r by (simp_all add: held_def)
qed

lemma call_fields:
  assumes p: "state s = prepared"
  shows "state (engine_of (call io uuid remote ctype s)) = calling"
    and "callId (engine_of (call io uuid remote ctype s)) = uuid"
    and "remoteUserId (engine_of (call io uuid remote ctype s)) = remote"
    and "cancelCallTimer (engine_of (call io uuid remote ctype s)) = timerAfter True remote s"
    and "callType (engine_of (call io uuid remote ctype s))
           = (case ctype of None \<Rightarrow> video | Some c \<Rightarrow> c)"
  using call_parts(4)[OF p, of io uuid remote ctype]
  by (simp_all add: kept_def)

subsection \<open>The engine on a concrete input\<close>


subsection \<open>How often the view-attach check changes the state\<close>

lemma connectedChanges_simps [simp]:
  "connectedChanges [] = 0"
  "connectedChanges (e # es) = (if isConnectedChange e then 1 else 0) + connectedChanges es"
  "connectedChanges (es @ fs) = connectedChanges es + connectedChanges fs"
  by (simp_all add: connectedChanges_def)

lemma added_palyRemoteVideo:
  "ext s t \<Longrightarrow> added s (palyRemoteVideo t) =
     added s t @ (if videoTrack (remoteTracks t) = Some (Track False) then [TrackPlay RemoteVideo] else [])"
  by (cases "videoTrack (remoteTracks t)"; cases "the (videoTrack (remoteTracks t))")
     (auto simp add: palyRemoteVideo_def)

lemma added_playRemoteAudio:
  "ext s t \<Longrightarrow> added s (playRemoteAudio t) =
     added s t @ (if audioTrack (remoteTracks t) = Some (Track False) then [TrackPlay RemoteAudio] else [])"
  by (cases "audioTrack (remoteTracks t)"; cases "the (audioTrack (remoteTracks t))")
     (auto simp add: playRemoteAudio_def)

lemma changes_play [simp]:
  "ext s t \<Longrightarrow> connectedChanges (added s (playLocalVideo t)) = connectedChanges (added s t)"
  "ext s t \<Longrightarrow> connectedChanges (added s (palyRemoteVideo t)) = connectedChanges (added s t)"
  "ext s t \<Longrightarrow> connectedChanges (added s (playRemoteAudio t)) = connectedChanges (added s t)"
  by (simp_all add: added_playLocalVideo added_palyRemoteVideo added_playRemoteAudio)

lemma checkAppendView_proceeds:
  assumes c: "state s = connecting" and f: "frameReady s"
  shows "ext (callStateChange connected R_recvRemoteFirstFrame None NoInfo s)
             (engine_of (checkAppendView s))"
    and "connectedChanges
           (added (callStateChange connected R_recvRemoteFirstFrame None NoInfo s)
                  (engine_of (checkAppendView s))) = 0"
  using c f
  by (cases "localView (prepareConfig s)"; cases "remoteView (prepareConfig s)";
      simp add: checkAppendView_def frameReady_def Let_def)+


lemma checkAppendView_first:
  assumes c: "state s = connecting" and f: "frameReady s"
  shows "\<exists>rest. added s (engine_of (checkAppendView s)) =
     CallStateChanged connected R_recvRemoteFirstFrame None NoInfo # rest"
proof -
  define s1 where "s1 = callStateChange connected R_recvRemoteFirstFrame None NoInfo s"
  have 1: "ext s s1" "added s s1 = [CallStateChanged connected R_recvRemoteFirstFrame None NoInfo]"
    using c by (simp_all add: s1_def)
  have 2: "ext s1 (engine_of (checkAppendView s))"
    using checkAppendView_proceeds(1)[OF c f] by (simp add: s1_def)
  show ?thesis
    using added_ext[OF 1(1) 2] 1(2) by simp
qed










subsection \<open>Properties that only the view-attach check can break\<close>












subsection \<open>The handlers keep such properties\<close>





















subsection \<open>The order of state changes and attachments\<close>



lemma attachRun_append:
  "attachRun p (xs @ ys) = (case attachRun p xs of None \<Rightarrow> None | Some q \<Rightarrow> attachRun q ys)"
  by (induction xs arbitrary: p) (simp_all split: option.splits)

lemma attachRun_snoc:
  "attachRun p0 (xs @ [ob]) =
     (case attachRun p0 xs of None \<Rightarrow> None | Some p \<Rightarrow> attachStep p ob)"
  by (simp add: attachRun_append split: option.splits)





lemma attachStep_play [simp]: "attachStep p (observe (TrackPlay x) s) = Some p"
  by (simp add: attachStep_def)












section \<open>The claims\<close>

text \<open>
  C8: \<open>_callStateChange\<close> is idempotent on the state: called with the state the engine
  is in already, whatever the reason, the event reason and the event info, it changes
  nothing and emits no \<open>callStateChanged\<close>.
\<close>

theorem callStateChange_same_state:
  "callStateChange (state s) stateReason eventReason info s = s
   \<and> trace (callStateChange (state s) stateReason eventReason info s) = trace s"
  by (simp add: callStateChange_def)

text \<open>
  C4: an inbound \<open>VideoCall\<close> from a user for whom \<open>_isCallingUser\<close> is false
  returns with every field of the engine as it was (so no state change, and the call id,
  the remote user and the call info are kept); all it does is send a \<open>Reject\<close> to the
  inviter, with \<open>rejectReason = "busy"\<close> and \<open>rejectByInternal = Internal\<close> (and
  report the error when that send fails).
\<close>

theorem receiveVideoCall_busy:
  assumes "\<not> isCallingUser (fromUserId data) s"
  shows "receiveVideoCall io data s =
     Ok (s\<lparr>trace := trace (engine_of (receiveVideoCall io data s))\<rparr>)
   \<and> added s (engine_of (receiveVideoCall io data s)) =
       SendMessage (fromUserId data)
         \<lparr>m_callId = callId s, fromUserId = userId s, m_remoteUserId = fromUserId data,
          fromRoomId = None, message_action = Reject, rejectReason = Some ''busy'',
          rejectByInternal = Some Internal, cancelCallByInternal = None\<rparr>
       # (if sendMessageOk io then [] else [CallError sendMessageFail message])"
  using assms
  by (simp add: receiveVideoCall_def autoReject_def publishMessage_def detached_def
      envelope_def callError_def emit_def added_def effects_def)

theorem receiveVideoCall_busy_witness:
  "\<not> isCallingUser (fromUserId (envelope 9 1 VideoCall)) busyEngine \<and>
   added busyEngine (engine_of (receiveVideoCall okIO (envelope 9 1 VideoCall) busyEngine)) =
       [SendMessage 9
         \<lparr>m_callId = ''id'', fromUserId = 1, m_remoteUserId = 9,
          fromRoomId = None, message_action = Reject, rejectReason = Some ''busy'',
          rejectByInternal = Some Internal, cancelCallByInternal = None\<rparr>]"
proof -
  have g: "\<not> isCallingUser (fromUserId (envelope 9 1 VideoCall)) busyEngine"
    by (simp add: isCallingUser_def busyEngine_def envelope_def newCallApi_def)
  from receiveVideoCall_busy [OF g, of okIO] g show ?thesis
    by (simp add: busyEngine_def envelope_def newCallApi_def okIO_def)
qed

text \<open>
  C9, as the claim states it, fails: with \<open>localView\<close> set and \<open>remoteView\<close> unset
  the check has attached the local view before it throws.
\<close>

theorem checkAppendView_half_attached:
  "state halfViews = connecting \<and>
   remoteView (prepareConfig halfViews) = None \<and>
   thrown (checkAppendView halfViews) = Some (Error ''remoteView is undefined'') \<and>
   added halfViews (engine_of (checkAppendView halfViews)) =
     [CallStateChanged connected R_recvRemoteFirstFrame None NoInfo, AppendChild LocalSide]"
  by (simp add: halfViews_def newCallApi_def checkAppendView_def Let_def
      callStateChange_def playLocalVideo_def added_def effects_def)

text \<open>
  C9, amended: when \<open>_checkAppendView\<close> runs in state \<open>connecting\<close> with its frame
  condition satisfied and \<open>localView\<close> or \<open>remoteView\<close> unset, it first changes the
  state to \<open>connected\<close> with reason \<open>recvRemoteFirstFrame\<close> and then throws
  ("localView is undefined", or "remoteView is undefined" when only the remote view is
  unset). The engine stays \<open>connected\<close>; no \<open>callError\<close> is emitted and the remote
  view is never attached; the local view is attached (and the local video played) when
  only \<open>remoteView\<close> is unset.
\<close>

theorem checkAppendView_missing_view:
  assumes "state s = connecting"
    and "firstFrameWaittingDisabled (prepareConfig s) = Some True
         \<or> receiveRemoteFirstFrameDecoded s"
    and "localView (prepareConfig s) = None \<or> remoteView (prepareConfig s) = None"
  shows "state (engine_of (checkAppendView s)) = connected
    \<and> thrown (checkAppendView s) =
        Some (Error (if localView (prepareConfig s) = None
                     then ''localView is undefined'' else ''remoteView is undefined''))
    \<and> added s (engine_of (checkAppendView s)) =
        CallStateChanged connected R_recvRemoteFirstFrame None NoInfo
        # (if localView (prepareConfig s) = None then []
           else AppendChild LocalSide
                # (if videoTrack (localTracks s) = Some (Track False)
                   then [TrackPlay LocalVideo] else []))"
  using assms
  by (auto simp add: checkAppendView_def Let_def added_playLocalVideo split: option.splits)

theorem checkAppendView_missing_view_witness:
  "state noViews = connecting \<and>
   receiveRemoteFirstFrameDecoded noViews \<and>
   localView (prepareConfig noViews) = None \<and>
   state (engine_of (checkAppendView noViews)) = connected \<and>
   thrown (checkAppendView noViews) = Some (Error ''localView is undefined'') \<and>
   added noViews (engine_of (checkAppendView noViews)) =
     [CallStateChanged connected R_recvRemoteFirstFrame None NoInfo]"
proof -
  have h1: "state noViews = connecting"
    and h2: "firstFrameWaittingDisabled (prepareConfig noViews) = Some True
             \<or> receiveRemoteFirstFrameDecoded noViews"
    and h3: "localView (prepareConfig noViews) = None
             \<or> remoteView (prepareConfig noViews) = None"
    by (simp_all add: noViews_def newCallApi_def)
  have h4: "receiveRemoteFirstFrameDecoded noViews" "localView (prepareConfig noViews) = None"
    by (simp_all add: noViews_def newCallApi_def)
  from checkAppendView_missing_view [OF h1 h2 h3] h1 h4 show ?thesis
    by simp
qed

text \<open>
  C10: \<open>accept(remoteUserId)\<close> never compares its argument with the peer the engine is
  committed to. In state \<open>calling\<close>, for every argument \<open>u\<close>, it emits
  \<open>localAccepted\<close>, changes the state to \<open>connecting\<close> with reason
  \<open>localAccepted\<close> and sends the \<open>Accept\<close> to \<open>u\<close>; whether it throws depends on
  the views and on the send only, not on \<open>u\<close>; the committed peer stays as it was.
\<close>

theorem accept_any_user:
  assumes "state s = calling"
  shows "(\<exists>rest. added s (engine_of (accept io u s)) =
            [CallEventChanged E_localAccepted,
             CallStateChanged connecting R_localAccepted None NoInfo,
             SendMessage u
               \<lparr>m_callId = callId s, fromUserId = userId s, m_remoteUserId = u,
                fromRoomId = None, message_action = Accept, rejectReason = None,
                rejectByInternal = None, cancelCallByInternal = None\<rparr>] @ rest)
       \<and> thrown (accept io u s) =
           (if frameReady s \<and> localView (prepareConfig s) = None
            then Some (Error ''localView is undefined'')
            else if frameReady s \<and> remoteView (prepareConfig s) = None
            then Some (Error ''remoteView is undefined'')
            else if sendMessageOk io then None else Some SendMessageError)
       \<and> remoteUserId (engine_of (accept io u s)) = remoteUserId s"
proof -
  define s3 where "s3 = callStateChange connecting R_localAccepted None NoInfo
     (CallInfo_add M_acceptCall (callEventChange E_localAccepted s))"
  define s4 where "s4 = fst (publishMessage io u (envelope (userId s) u Accept) s3)"
  define sent where "sent = snd (publishMessage io u (envelope (userId s) u Accept) s3)"
  have acc: "accept io u s = (case checkAppendView s4 of Ok t \<Rightarrow> sent t | Throw e t \<Rightarrow> detached sent (Throw e t))"
    using assms by (simp add: accept_def s3_def s4_def sent_def Let_def case_prod_beta cong: result.case_cong)
  have a4: "added s s4 = [CallEventChanged E_localAccepted,
             CallStateChanged connecting R_localAccepted None NoInfo,
             SendMessage u
               \<lparr>m_callId = callId s, fromUserId = userId s, m_remoteUserId = u,
                fromRoomId = None, message_action = Accept, rejectReason = None,
                rejectByInternal = None, cancelCallByInternal = None\<rparr>]"
    using assms by (simp add: s4_def s3_def publishMessage_def envelope_def)
  have e4: "ext s s4" by (simp add: s4_def s3_def publishMessage_def)
  have f4: "state s4 = connecting" "frameReady s4 = frameReady s" "prepareConfig s4 = prepareConfig s"
      "remoteUserId s4 = remoteUserId s"
    by (simp_all add: s4_def s3_def publishMessage_def frameReady_def)
  have sentp: "\<And>t. ext s4 t \<Longrightarrow> ext s4 (engine_of (sent t))"
     "\<And>t. thrown (sent t) = (if sendMessageOk io then None else Some SendMessageError)"
     "\<And>t. remoteUserId (engine_of (sent t)) = remoteUserId t"
    by (simp_all add: sent_def publishMessage_def)
  have e5: "ext s4 (engine_of (accept io u s))"
    unfolding acc using sentp(1) ext_checkAppendView[OF ext_refl, of s4]
    by (cases "checkAppendView s4") (simp_all add: detached_def)
  have "added s (engine_of (accept io u s)) = added s s4 @ added s4 (engine_of (accept io u s))"
    by (rule added_ext[OF e4 e5])
  then have 1: "\<exists>rest. added s (engine_of (accept io u s)) =
            [CallEventChanged E_localAccepted,
             CallStateChanged connecting R_localAccepted None NoInfo,
             SendMessage u
               \<lparr>m_callId = callId s, fromUserId = userId s, m_remoteUserId = u,
                fromRoomId = None, message_action = Accept, rejectReason = None,
                rejectByInternal = None, cancelCallByInternal = None\<rparr>] @ rest"
    unfolding a4 by blast
  have 2: "thrown (accept io u s) =
           (if frameReady s \<and> localView (prepareConfig s) = None
            then Some (Error ''localView is undefined'')
            else if frameReady s \<and> remoteView (prepareConfig s) = None
            then Some (Error ''remoteView is undefined'')
            else if sendMessageOk io then None else Some SendMessageError)"
    unfolding acc using checkAppendView_thrown[of s4] sentp(2)
    by (cases "checkAppendView s4") (auto simp add: detached_def f4 split: if_splits)
  have 3: "remoteUserId (engine_of (accept io u s)) = remoteUserId s"
    unfolding acc using checkAppendView_fields(2)[of s4] sentp(3)
    by (cases "checkAppendView s4") (simp_all add: detached_def f4)
  from 1 2 3 show ?thesis by blast
qed


theorem accept_any_user_witness:
  "state busyEngine = calling \<and> remoteUserId busyEngine = 7 \<and>
   added busyEngine (engine_of (accept okIO 9 busyEngine)) =
     [CallEventChanged E_localAccepted,
      CallStateChanged connecting R_localAccepted None NoInfo,
      SendMessage 9
        \<lparr>m_callId = ''id'', fromUserId = 1, m_remoteUserId = 9,
         fromRoomId = None, message_action = Accept, rejectReason = None,
         rejectByInternal = None, cancelCallByInternal = None\<rparr>] \<and>
   thrown (accept okIO 9 busyEngine) = None \<and>
   remoteUserId (engine_of (accept okIO 9 busyEngine)) = 7"
proof -
  have h: "state busyEngine = calling"
    by (simp add: busyEngine_def newCallApi_def)
  have a: "added busyEngine (engine_of (accept okIO 9 busyEngine)) =
     [CallEventChanged E_localAccepted,
      CallStateChanged connecting R_localAccepted None NoInfo,
      SendMessage 9
        \<lparr>m_callId = ''id'', fromUserId = 1, m_remoteUserId = 9,
         fromRoomId = None, message_action = Accept, rejectReason = None,
         rejectByInternal = None, cancelCallByInternal = None\<rparr>]"
    by (simp add: busyEngine_def newCallApi_def accept_def publishMessage_def
        checkAppendView_def okIO_def envelope_def Let_def callStateChange_def
        callEventChange_def CallInfo_add_def emit_def added_def effects_def)
  from accept_any_user [OF h, of okIO 9] h a show ?thesis
    by (simp add: busyEngine_def newCallApi_def okIO_def frameReady_def)
qed

text \<open>
  C3: an inbound \<open>Reject\<close> whose sender passes \<open>_isCallingUser\<close> maps
  \<open>rejectByInternal = Internal\<close> to the state reason \<open>remoteCallBusy\<close> (and emits
  the event \<open>remoteCallBusy\<close> first) and every other value to \<open>remoteRejected\<close>.
  The teardown comes before the state change: when \<open>destroy()\<close> fails nothing more
  is emitted; when it completes, the change to \<open>prepared\<close> with the mapped reason and
  \<open>eventInfo.rejectReason\<close> is emitted after all of the teardown, by an engine that
  is reset already (no call id, no timer, no remote user, an empty call info, the first
  frame not decoded), and the event \<open>remoteRejected\<close> is emitted after that state
  change. (An engine that is \<open>prepared\<close> already emits no state
  change, as always.)
\<close>

theorem receiveReject_order:
  assumes "isCallingUser (fromUserId data) s"
  shows
   "(rtcJoined s \<and> \<not> leaveOk io \<longrightarrow>
       thrown (receiveReject io data s) = Some RtcError
       \<and> state (engine_of (receiveReject io data s)) = state s
       \<and> added s (engine_of (receiveReject io data s)) =
           (if rejectByInternal data = Some Internal
            then [CallEventChanged E_remoteCallBusy] else [])
           @ destoryStarted s @ destorySettled io s)
    \<and> ((rtcJoined s \<longrightarrow> leaveOk io) \<longrightarrow>
       thrown (receiveReject io data s) = None
       \<and> state (engine_of (receiveReject io data s)) = prepared
       \<and> isReset (engine_of (receiveReject io data s))
       \<and> (\<exists>front.
            trace (engine_of (receiveReject io data s)) =
              front
              @ (if state s = prepared then []
                 else [\<lparr>what = CallStateChanged prepared
                                 (if rejectByInternal data = Some Internal
                                  then R_remoteCallBusy else R_remoteRejected)
                                 (Some []) (RejectInfo (rejectReason data)),
                        seen_state = prepared, seen_callId = [], seen_timer = False,
                        seen_remoteUserId = 0, seen_callType = callType s,
                        seen_callInfo = [],
                        seen_frameReady =
                          (firstFrameWaittingDisabled (prepareConfig s) = Some True)\<rparr>])
              @ [\<lparr>what = CallEventChanged E_remoteRejected,
                  seen_state = prepared, seen_callId = [], seen_timer = False,
                        seen_remoteUserId = 0, seen_callType = callType s,
                        seen_callInfo = [],
                        seen_frameReady =
                          (firstFrameWaittingDisabled (prepareConfig s) = Some True)\<rparr>]
            \<and> map what front =
                effects s
                @ (if rejectByInternal data = Some Internal
                   then [CallEventChanged E_remoteCallBusy] else [])
                @ destoryStarted s @ destorySettled io s))"
proof -
  define s1 where "s1 = (if rejectByInternal data = Some Internal
                         then callEventChange E_remoteCallBusy s else s)"
  define reason where "reason = (if rejectByInternal data = Some Internal
                                  then R_remoteCallBusy else R_remoteRejected)"
  define d where "d = await (destory io) s1"
  define fin where "fin = (\<lambda>t. callEventChange E_remoteRejected
           (callStateChange prepared reason (Some []) (RejectInfo (rejectReason data)) t))"
  have rr: "receiveReject io data s = andThen d (\<lambda>t. Ok (fin t))"
    using assms by (simp add: receiveReject_def s1_def reason_def d_def fin_def Let_def)
  have s1: "ext s s1" "rtcJoined s1 = rtcJoined s" "state s1 = state s"
      "added s s1 = (if rejectByInternal data = Some Internal
            then [CallEventChanged E_remoteCallBusy] else [])"
      "destoryStarted s1 = destoryStarted s" "destorySettled io s1 = destorySettled io s"
    by (simp_all add: s1_def)
  have d1: "ext s1 (engine_of d)" "added s1 (engine_of d) = destoryStarted s @ destorySettled io s"
      "state (engine_of d) = state s"
      "thrown d = (if rtcJoined s \<and> \<not> leaveOk io then Some RtcError else None)"
    by (simp_all add: d_def await_destory_ext await_destory_added await_destory_thrown s1)
  have ad: "added s (engine_of d) =
           (if rejectByInternal data = Some Internal
            then [CallEventChanged E_remoteCallBusy] else [])
           @ destoryStarted s @ destorySettled io s"
    using added_ext[OF s1(1) d1(1)] by (simp add: s1 d1)
  have ed: "ext s (engine_of d)" by (rule ext_trans[OF s1(1) d1(1)])
  have A: "rtcJoined s \<and> \<not> leaveOk io \<longrightarrow>
       thrown (receiveReject io data s) = Some RtcError
       \<and> state (engine_of (receiveReject io data s)) = state s
       \<and> added s (engine_of (receiveReject io data s)) =
           (if rejectByInternal data = Some Internal
            then [CallEventChanged E_remoteCallBusy] else [])
           @ destoryStarted s @ destorySettled io s"
    using d1(3,4) ad unfolding rr by (cases d) (auto split: if_splits)
  have B: "(rtcJoined s \<longrightarrow> leaveOk io) \<longrightarrow>
       thrown (receiveReject io data s) = None
       \<and> state (engine_of (receiveReject io data s)) = prepared
       \<and> isReset (engine_of (receiveReject io data s))
       \<and> (\<exists>front.
            trace (engine_of (receiveReject io data s)) =
              front
              @ (if state s = prepared then []
                 else [\<lparr>what = CallStateChanged prepared
                                 (if rejectByInternal data = Some Internal
                                  then R_remoteCallBusy else R_remoteRejected)
                                 (Some []) (RejectInfo (rejectReason data)),
                        seen_state = prepared, seen_callId = [], seen_timer = False,
                        seen_remoteUserId = 0, seen_callType = callType s,
                        seen_callInfo = [],
                        seen_frameReady =
                          (firstFrameWaittingDisabled (prepareConfig s) = Some True)\<rparr>])
              @ [\<lparr>what = CallEventChanged E_remoteRejected,
                  seen_state = prepared, seen_callId = [], seen_timer = False,
                        seen_remoteUserId = 0, seen_callType = callType s,
                        seen_callInfo = [],
                        seen_frameReady =
                          (firstFrameWaittingDisabled (prepareConfig s) = Some True)\<rparr>]
            \<and> map what front =
                effects s
                @ (if rejectByInternal data = Some Internal
                   then [CallEventChanged E_remoteCallBusy] else [])
                @ destoryStarted s @ destorySettled io s)"
  proof
    assume ok: "rtcJoined s \<longrightarrow> leaveOk io"
    then have reset: "isReset (engine_of d)"
      unfolding d_def by (intro await_destory_reset) (simp add: s1)
    from ok d1(4) obtain t where t: "d = Ok t" by (cases d) auto
    have rt: "receiveReject io data s = Ok (fin t)" by (simp add: rr t)
    from reset t have tr: "callId t = []" "cancelCallTimer t = None" "isReset t"
      "remoteUserId t = 0" "\<not> receiveRemoteFirstFrameDecoded t"
      by (simp_all add: isReset_def)
    have st: "state t = state s" using d1(3) t by simp
    have ft: "callInfo t = []" "callType t = callType s" "prepareConfig t = prepareConfig s"
      using await_destory_callInfo[OF ok[unfolded s1(2)[symmetric]]] t
        await_destory_fields(2,4)[of io s1]
      by (simp_all add: d_def s1_def)
    have tt: "trace (fin t) = trace t
              @ (if state s = prepared then []
                 else [\<lparr>what = CallStateChanged prepared reason
                                 (Some []) (RejectInfo (rejectReason data)),
                        seen_state = prepared, seen_callId = [], seen_timer = False,
                        seen_remoteUserId = 0, seen_callType = callType s,
                        seen_callInfo = [],
                        seen_frameReady =
                          (firstFrameWaittingDisabled (prepareConfig s) = Some True)\<rparr>])
              @ [\<lparr>what = CallEventChanged E_remoteRejected,
                  seen_state = prepared, seen_callId = [], seen_timer = False,
                        seen_remoteUserId = 0, seen_callType = callType s,
                        seen_callInfo = [],
                        seen_frameReady =
                          (firstFrameWaittingDisabled (prepareConfig s) = Some True)\<rparr>]"
      by (simp add: fin_def callEventChange_def callStateChange_def observe_def tr st ft)
    have mt: "map what (trace t) = effects s
                @ (if rejectByInternal data = Some Internal
                   then [CallEventChanged E_remoteCallBusy] else [])
                @ destoryStarted s @ destorySettled io s"
      using effects_ext[OF ed] ad t by (simp add: effects_def)
    have "state (fin t) = prepared" "isReset (fin t)"
      by (simp_all add: fin_def tr)
    with tt mt show "thrown (receiveReject io data s) = None
       \<and> state (engine_of (receiveReject io data s)) = prepared
       \<and> isReset (engine_of (receiveReject io data s))
       \<and> (\<exists>front.
            trace (engine_of (receiveReject io data s)) =
              front
              @ (if state s = prepared then []
                 else [\<lparr>what = CallStateChanged prepared
                                 (if rejectByInternal data = Some Internal
                                  then R_remoteCallBusy else R_remoteRejected)
                                 (Some []) (RejectInfo (rejectReason data)),
                        seen_state = prepared, seen_callId = [], seen_timer = False,
                        seen_remoteUserId = 0, seen_callType = callType s,
                        seen_callInfo = [],
                        seen_frameReady =
                          (firstFrameWaittingDisabled (prepareConfig s) = Some True)\<rparr>])
              @ [\<lparr>what = CallEventChanged E_remoteRejected,
                  seen_state = prepared, seen_callId = [], seen_timer = False,
                        seen_remoteUserId = 0, seen_callType = callType s,
                        seen_callInfo = [],
                        seen_frameReady =
                          (firstFrameWaittingDisabled (prepareConfig s) = Some True)\<rparr>]
            \<and> map what front =
                effects s
                @ (if rejectByInternal data = Some Internal
                   then [CallEventChanged E_remoteCallBusy] else [])
                @ destoryStarted s @ destorySettled io s)"
      unfolding rt reason_def by (intro conjI exI[of _ "trace t"]) simp_all
  qed
  from A B show ?thesis by blast
qed

theorem receiveReject_order_witness:
  "isCallingUser (fromUserId busyReject) joinedCaller \<and>
   (rtcJoined joinedCaller \<and> leaveOk okIO) \<and>
   thrown (receiveReject okIO busyReject joinedCaller) = None \<and>
   state (engine_of (receiveReject okIO busyReject joinedCaller)) = prepared \<and>
   isReset (engine_of (receiveReject okIO busyReject joinedCaller)) \<and>
   added joinedCaller (engine_of (receiveReject okIO busyReject joinedCaller)) =
     [CallEventChanged E_remoteCallBusy, TrackClose LocalAudio, TrackClose LocalVideo,
      RtcLeave, CallEventChanged E_localLeft, ClearView LocalSide, ClearView RemoteSide,
      ClearTimeout,
      CallStateChanged prepared R_remoteCallBusy (Some []) (RejectInfo (Some ''busy'')),
      CallEventChanged E_remoteRejected]"
proof -
  have g: "isCallingUser (fromUserId busyReject) joinedCaller"
    by (simp add: isCallingUser_def busyReject_def joinedCaller_def envelope_def newCallApi_def)
  have l: "rtcJoined joinedCaller \<and> leaveOk okIO"
    by (simp add: joinedCaller_def okIO_def newCallApi_def)
  have a: "added joinedCaller (engine_of (receiveReject okIO busyReject joinedCaller)) =
     [CallEventChanged E_remoteCallBusy, TrackClose LocalAudio, TrackClose LocalVideo,
      RtcLeave, CallEventChanged E_localLeft, ClearView LocalSide, ClearView RemoteSide,
      ClearTimeout,
      CallStateChanged prepared R_remoteCallBusy (Some []) (RejectInfo (Some ''busy'')),
      CallEventChanged E_remoteRejected]"
    by (simp add: receiveReject_def isCallingUser_def busyReject_def joinedCaller_def
        envelope_def newCallApi_def okIO_def await_def destory_def resetData_def resetView_def
        CallInfo_end_def callStateChange_def callEventChange_def emit_def Let_def
        added_def effects_def)
  from receiveReject_order [OF g, of okIO] l g a show ?thesis
    by simp
qed

text \<open>
  C5: when the armed timer fires in state \<open>calling\<close> or \<open>connecting\<close>, the engine
  changes to \<open>prepared\<close> with reason \<open>callingTimeout\<close>, emits \<open>callingTimeout\<close>
  when the timer was armed by \<open>call()\<close> and \<open>remoteCallingTimeout\<close> when it was
  armed by an inbound invite, and then sends a \<open>Cancel\<close> with
  \<open>cancelCallByInternal = Internal\<close> and runs \<open>destroy()\<close> concurrently (the send
  starts, the teardown starts, both settle). In every other state the firing timer does
  nothing. \<open>call()\<close> arms the timer with the local flag, an invite with the remote
  one, and the firing timer runs the callback with the flag it was armed with.
\<close>

theorem timeoutCallback_fires:
  "(state s = calling \<or> state s = connecting \<longrightarrow>
       added s (engine_of (timeoutCallback isLocal io s)) =
         [CallStateChanged prepared R_callingTimeout None NoInfo,
          CallEventChanged (if isLocal then E_callingTimeout else E_remoteCallingTimeout),
          SendMessage (remoteUserId s)
            \<lparr>m_callId = callId s, fromUserId = userId s, m_remoteUserId = remoteUserId s,
             fromRoomId = None, message_action = Cancel, rejectReason = None,
             rejectByInternal = None, cancelCallByInternal = Some Internal\<rparr>]
         @ destoryStarted s @ sendSettled io @ destorySettled io s
       \<and> state (engine_of (timeoutCallback isLocal io s)) = prepared
       \<and> ((rtcJoined s \<longrightarrow> leaveOk io) \<longrightarrow> isReset (engine_of (timeoutCallback isLocal io s))))
    \<and> (state s \<noteq> calling \<and> state s \<noteq> connecting \<longrightarrow> timeoutCallback isLocal io s = Ok s)
    \<and> (state s = prepared \<and> remote \<noteq> 0
          \<and> callTimeoutMillisecond (prepareConfig s) = Some ms \<and> ms \<noteq> 0 \<longrightarrow>
        cancelCallTimer (engine_of (call io uuid remote ctype s)) = Some (Timer True ms))
    \<and> (isCallingUser (fromUserId data) s \<and> fromUserId data \<noteq> 0
          \<and> callTimeoutMillisecond (prepareConfig s) = Some ms \<and> ms \<noteq> 0 \<longrightarrow>
        cancelCallTimer (engine_of (receiveVideoCall io data s)) = Some (Timer False ms))
    \<and> (cancelCallTimer s = Some tm \<longrightarrow>
        step io TimerFired s = timeoutCallback (timerIsLocal tm) io s)"
proof -
  define s2 where "s2 = callEventChange
                    (if isLocal then E_callingTimeout else E_remoteCallingTimeout)
                    (callStateChange prepared R_callingTimeout None NoInfo s)"
  define m where "m = (envelope (userId s) (remoteUserId s) Cancel)
                       \<lparr>cancelCallByInternal := Some Internal\<rparr>"
  define r where "r = await (Promise_all (publishMessage io (remoteUserId s) m) (destory io)) s2"
  have tc: "state s = calling \<or> state s = connecting \<Longrightarrow> timeoutCallback isLocal io s = r"
    by (auto simp add: timeoutCallback_def s2_def m_def r_def Let_def)
  have e2: "ext s s2" "state s2 = prepared" "rtcJoined s2 = rtcJoined s" "callId s2 = callId s"
    by (simp_all add: s2_def)
  have a2: "state s = calling \<or> state s = connecting \<Longrightarrow> added s s2 =
      [CallStateChanged prepared R_callingTimeout None NoInfo,
       CallEventChanged (if isLocal then E_callingTimeout else E_remoteCallingTimeout)]"
    by (auto simp add: s2_def)
  have er: "ext s2 (engine_of r)" unfolding r_def by (rule sendAndDestory_ext)
  have ar: "added s2 (engine_of r) =
       SendMessage (remoteUserId s) (m\<lparr>m_callId := callId s\<rparr>) # destoryStarted s
       @ sendSettled io @ destorySettled io s"
    unfolding r_def by (simp add: sendAndDestory_added) (simp add: s2_def)
  have sr: "state (engine_of r) = prepared"
    unfolding r_def by (simp add: e2)
  have rr: "(rtcJoined s \<longrightarrow> leaveOk io) \<Longrightarrow> isReset (engine_of r)"
    unfolding r_def by (rule sendAndDestory_reset) (simp add: e2)
  have A: "state s = calling \<or> state s = connecting \<longrightarrow>
       added s (engine_of (timeoutCallback isLocal io s)) =
         [CallStateChanged prepared R_callingTimeout None NoInfo,
          CallEventChanged (if isLocal then E_callingTimeout else E_remoteCallingTimeout),
          SendMessage (remoteUserId s)
            \<lparr>m_callId = callId s, fromUserId = userId s, m_remoteUserId = remoteUserId s,
             fromRoomId = None, message_action = Cancel, rejectReason = None,
             rejectByInternal = None, cancelCallByInternal = Some Internal\<rparr>]
         @ destoryStarted s @ sendSettled io @ destorySettled io s
       \<and> state (engine_of (timeoutCallback isLocal io s)) = prepared
       \<and> ((rtcJoined s \<longrightarrow> leaveOk io) \<longrightarrow> isReset (engine_of (timeoutCallback isLocal io s)))"
  proof
    assume c: "state s = calling \<or> state s = connecting"
    have "added s (engine_of r) = added s s2 @ added s2 (engine_of r)"
      by (rule added_ext[OF e2(1) er])
    then show "added s (engine_of (timeoutCallback isLocal io s)) =
         [CallStateChanged prepared R_callingTimeout None NoInfo,
          CallEventChanged (if isLocal then E_callingTimeout else E_remoteCallingTimeout),
          SendMessage (remoteUserId s)
            \<lparr>m_callId = callId s, fromUserId = userId s, m_remoteUserId = remoteUserId s,
             fromRoomId = None, message_action = Cancel, rejectReason = None,
             rejectByInternal = None, cancelCallByInternal = Some Internal\<rparr>]
         @ destoryStarted s @ sendSettled io @ destorySettled io s
       \<and> state (engine_of (timeoutCallback isLocal io s)) = prepared
       \<and> ((rtcJoined s \<longrightarrow> leaveOk io) \<longrightarrow> isReset (engine_of (timeoutCallback isLocal io s)))"
      using sr rr by (simp add: tc[OF c] a2[OF c] ar m_def envelope_def)
  qed
  have B: "state s \<noteq> calling \<and> state s \<noteq> connecting \<longrightarrow> timeoutCallback isLocal io s = Ok s"
    by (simp add: timeoutCallback_def)
  have C: "state s = prepared \<and> remote \<noteq> 0
          \<and> callTimeoutMillisecond (prepareConfig s) = Some ms \<and> ms \<noteq> 0 \<longrightarrow>
        cancelCallTimer (engine_of (call io uuid remote ctype s)) = Some (Timer True ms)"
    by (simp add: call_fields timerAfter_def)
  have D: "isCallingUser (fromUserId data) s \<and> fromUserId data \<noteq> 0
          \<and> callTimeoutMillisecond (prepareConfig s) = Some ms \<and> ms \<noteq> 0 \<longrightarrow>
        cancelCallTimer (engine_of (receiveVideoCall io data s)) = Some (Timer False ms)"
    by (simp add: receiveVideoCall_held timerAfter_def)
  have E: "cancelCallTimer s = Some tm \<longrightarrow>
        step io TimerFired s = timeoutCallback (timerIsLocal tm) io s"
    by (simp add: step_def)
  from A B C D E show ?thesis by blast
qed

theorem timeoutCallback_fires_witness:
  "(state joinedCaller = calling \<or> state joinedCaller = connecting) \<and>
   cancelCallTimer joinedCaller = Some (Timer True 1000) \<and>
   added joinedCaller (engine_of (step okIO TimerFired joinedCaller)) =
     [CallStateChanged prepared R_callingTimeout None NoInfo,
      CallEventChanged E_callingTimeout,
      SendMessage 7
        \<lparr>m_callId = ''id'', fromUserId = 1, m_remoteUserId = 7,
         fromRoomId = None, message_action = Cancel, rejectReason = None,
         rejectByInternal = None, cancelCallByInternal = Some Internal\<rparr>,
      TrackClose LocalAudio, TrackClose LocalVideo, RtcLeave,
      CallEventChanged E_localLeft, ClearView LocalSide, ClearView RemoteSide, ClearTimeout] \<and>
   state (engine_of (step okIO TimerFired joinedCaller)) = prepared \<and>
   isReset (engine_of (step okIO TimerFired joinedCaller)) \<and>
   (state preparedEngine \<noteq> calling \<and> state preparedEngine \<noteq> connecting) \<and>
   timeoutCallback True okIO preparedEngine = Ok preparedEngine \<and>
   cancelCallTimer (engine_of (call okIO ''id'' 7 None preparedEngine)) = Some (Timer True 1000) \<and>
   isCallingUser (fromUserId videoInvite) preparedEngine \<and>
   cancelCallTimer (engine_of (receiveVideoCall okIO videoInvite preparedEngine))
     = Some (Timer False 1000)"
proof -
  have h1: "state joinedCaller = calling \<or> state joinedCaller = connecting"
    and h2: "cancelCallTimer joinedCaller = Some (Timer True 1000)"
    and h3: "rtcJoined joinedCaller \<longrightarrow> leaveOk okIO"
    by (simp_all add: joinedCaller_def newCallApi_def okIO_def)
  have h4: "state preparedEngine \<noteq> calling \<and> state preparedEngine \<noteq> connecting"
    and h5: "state preparedEngine = prepared \<and> (7::int) \<noteq> 0
          \<and> callTimeoutMillisecond (prepareConfig preparedEngine) = Some 1000 \<and> (1000::int) \<noteq> 0"
    and h6: "isCallingUser (fromUserId videoInvite) preparedEngine \<and> fromUserId videoInvite \<noteq> 0
          \<and> callTimeoutMillisecond (prepareConfig preparedEngine) = Some 1000 \<and> (1000::int) \<noteq> 0"
    by (simp_all add: preparedEngine_def preparedNoTimeout_def newCallApi_def videoInvite_def
        envelope_def isCallingUser_def)
  have d: "destoryStarted joinedCaller @ sendSettled okIO @ destorySettled okIO joinedCaller =
      [TrackClose LocalAudio, TrackClose LocalVideo, RtcLeave,
      CallEventChanged E_localLeft, ClearView LocalSide, ClearView RemoteSide, ClearTimeout]"
    by (simp add: destoryStarted_def sendSettled_def destorySettled_def stopAndClose_def
        resetEffects_def joinedCaller_def newCallApi_def okIO_def)
  have v: "userId joinedCaller = 1" "remoteUserId joinedCaller = 7" "callId joinedCaller = ''id''"
    by (simp_all add: joinedCaller_def newCallApi_def)
  note a = timeoutCallback_fires [of joinedCaller True okIO 7 1000 "''id''" None videoInvite "Timer True 1000"]
  note b = timeoutCallback_fires [of preparedEngine True okIO 7 1000 "''id''" None videoInvite "Timer True 1000"]
  from a h1 h2 h3 have
    "added joinedCaller (engine_of (step okIO TimerFired joinedCaller)) =
     [CallStateChanged prepared R_callingTimeout None NoInfo,
      CallEventChanged E_callingTimeout,
      SendMessage 7
        \<lparr>m_callId = ''id'', fromUserId = 1, m_remoteUserId = 7,
         fromRoomId = None, message_action = Cancel, rejectReason = None,
         rejectByInternal = None, cancelCallByInternal = Some Internal\<rparr>,
      TrackClose LocalAudio, TrackClose LocalVideo, RtcLeave,
      CallEventChanged E_localLeft, ClearView LocalSide, ClearView RemoteSide, ClearTimeout] \<and>
   state (engine_of (step okIO TimerFired joinedCaller)) = prepared \<and>
   isReset (engine_of (step okIO TimerFired joinedCaller))"
    by (simp add: d v)
  moreover from b h4 h5 h6 have
   "timeoutCallback True okIO preparedEngine = Ok preparedEngine \<and>
   cancelCallTimer (engine_of (call okIO ''id'' 7 None preparedEngine)) = Some (Timer True 1000) \<and>
   cancelCallTimer (engine_of (receiveVideoCall okIO videoInvite preparedEngine))
     = Some (Timer False 1000)"
    by simp
  ultimately show ?thesis using h1 h2 h4 h6 by simp
qed

text \<open>
  C7, as the claim states it, fails: \<open>call\<close> in state \<open>prepared\<close> arms no timer
  when no \<open>callTimeoutMillisecond\<close> is configured.
\<close>

theorem call_without_timeout:
  "state preparedNoTimeout = prepared \<and>
   cancelCallTimer (engine_of (call okIO ''id'' 7 None preparedNoTimeout)) = None \<and>
   added preparedNoTimeout (engine_of (call okIO ''id'' 7 None preparedNoTimeout)) =
     [CallStateChanged calling R_localVideoCall (Some []) (CallPeers 7 1),
      CallEventChanged E_onCalling,
      CreateTracks, CallEventChanged E_joinRTCStart, RtcJoin,
      SendMessage 7
        \<lparr>m_callId = ''id'', fromUserId = 1, m_remoteUserId = 7,
         fromRoomId = Some ''room'', message_action = VideoCall, rejectReason = None,
         rejectByInternal = None, cancelCallByInternal = None\<rparr>,
      CallEventChanged E_remoteUserRecvCall,
      CallEventChanged E_joinRTCSuccessed, CallEventChanged E_localJoined,
      TrackPlay LocalVideo, RtcPublish, CallEventChanged E_publishFirstLocalVideoFrame]"
  by code_simp

text \<open>
  C7, amended: \<open>call(remoteUserId, callType)\<close> in a state other than \<open>prepared\<close>
  emits \<open>stateMismatch\<close>, throws, and changes no field of the engine. In
  \<open>prepared\<close> it does, in this order: start the call info, set \<open>remoteUserId\<close> and
  \<open>callType\<close>, emit state \<open>calling\<close> with reason \<open>localVideoCall\<close> or
  \<open>localAudioCall\<close> and the event info \<open>{remoteUserId, fromUserId}\<close>, emit
  \<open>onCalling\<close>, assign the fresh call id, arm the timer when the remote user is not
  \<open>0\<close> and \<open>callTimeoutMillisecond\<close> is set and not \<open>0\<close> (clearing one it
  holds) and arm none otherwise, start the media (create the tracks; join unless joined
  already or without room or token) and hand the invite, stamped with the fresh id, to
  the messaging manager; the rest settles afterwards.

  The order is read off the trace: the change to \<open>calling\<close> and \<open>onCalling\<close> are
  done against the engine \<open>sA\<close>, which has the call info started, the remote user and
  the call type written, and still the old call id and the old timer; the timer is
  cleared and set against \<open>sB\<close>, which has the fresh id; the media is started and the
  invite is sent against \<open>sC\<close>, which has the timer as \<open>_autoCancelCall\<close> left it.
\<close>

theorem call_in_order:
  "(state s \<noteq> prepared \<longrightarrow>
       call io uuid remote ctype s =
         Throw (CallFailed (state s))
           (s\<lparr>trace := trace s @ [observe (CallEventChanged E_stateMismatch) s]\<rparr>))
   \<and> (state s = prepared \<longrightarrow>
       (let ct = (case ctype of None \<Rightarrow> video | Some c \<Rightarrow> c);
            sA = s\<lparr>callInfo := [M_start], remoteUserId := remote, callType := ct,
                   state := calling\<rparr>;
            sB = sA\<lparr>callId := uuid\<rparr>;
            sC = sB\<lparr>cancelCallTimer := timerAfter True remote s\<rparr>;
            invite = \<lparr>m_callId = uuid, fromUserId = userId s, m_remoteUserId = remote,
                      fromRoomId = roomId (prepareConfig s),
                      message_action = (if ct = video then VideoCall else AudioCall),
                      rejectReason = None, rejectByInternal = None,
                      cancelCallByInternal = None\<rparr>
        in (\<exists>rest. trace (engine_of (call io uuid remote ctype s)) =
              trace s
              @ [observe (CallStateChanged calling
                            (if ct = video then R_localVideoCall else R_localAudioCall)
                            (Some []) (CallPeers remote (userId s))) sA,
                 observe (CallEventChanged E_onCalling) sA]
              @ timerObservations True sB
              @ map (\<lambda>e. observe e sC) (mediaStarted s @ [SendMessage remote invite])
              @ rest)
           \<and> map what (timerObservations True sB) = timerEffects True remote s
           \<and> (\<exists>rest. added s (engine_of (call io uuid remote ctype s)) =
                 [CallStateChanged calling
                    (if ct = video then R_localVideoCall else R_localAudioCall)
                    (Some []) (CallPeers remote (userId s)),
                  CallEventChanged E_onCalling]
                 @ timerEffects True remote s @ mediaStarted s
                 @ [SendMessage remote invite] @ rest)
           \<and> state (engine_of (call io uuid remote ctype s)) = calling
           \<and> callId (engine_of (call io uuid remote ctype s)) = uuid
           \<and> remoteUserId (engine_of (call io uuid remote ctype s)) = remote
           \<and> callType (engine_of (call io uuid remote ctype s)) = ct
           \<and> cancelCallTimer (engine_of (call io uuid remote ctype s))
               = timerAfter True remote s
           \<and> (\<exists>ms. callInfo (engine_of (call io uuid remote ctype s)) = M_start # ms)))"
proof -
  have A: "state s \<noteq> prepared \<longrightarrow>
       call io uuid remote ctype s =
         Throw (CallFailed (state s))
           (s\<lparr>trace := trace s @ [observe (CallEventChanged E_stateMismatch) s]\<rparr>)"
    by (simp add: call_def callEventChange_def emit_def)
  define ct where "ct = (case ctype of None \<Rightarrow> video | Some c \<Rightarrow> c)"
  define sA where "sA = s\<lparr>callInfo := [M_start], remoteUserId := remote, callType := ct,
                   state := calling\<rparr>"
  define sB where "sB = sA\<lparr>callId := uuid\<rparr>"
  define sC where "sC = sB\<lparr>cancelCallTimer := timerAfter True remote s\<rparr>"
  define invite where "invite = \<lparr>m_callId = uuid, fromUserId = userId s, m_remoteUserId = remote,
                      fromRoomId = roomId (prepareConfig s),
                      message_action = (if ct = video then VideoCall else AudioCall),
                      rejectReason = None, rejectByInternal = None,
                      cancelCallByInternal = None\<rparr>"
  define t where "t = engine_of (call io uuid remote ctype s)"
  define pre where "pre =
              [observe (CallStateChanged calling
                            (if ct = video then R_localVideoCall else R_localAudioCall)
                            (Some []) (CallPeers remote (userId s))) sA,
                 observe (CallEventChanged E_onCalling) sA]
              @ timerObservations True sB
              @ map (\<lambda>e. observe e sC) (mediaStarted s @ [SendMessage remote invite])"
  have w: "map what (timerObservations True sB) = timerEffects True remote s"
    unfolding what_timerObservations
    by (rule trans[OF _ timerEffects_cong[of sB s]]) (simp_all add: sB_def sA_def)
  have B: "state s = prepared \<Longrightarrow>
           (\<exists>rest. trace t = trace s @ pre @ rest)
           \<and> (\<exists>rest. added s t =
                 [CallStateChanged calling
                    (if ct = video then R_localVideoCall else R_localAudioCall)
                    (Some []) (CallPeers remote (userId s)),
                  CallEventChanged E_onCalling]
                 @ timerEffects True remote s @ mediaStarted s
                 @ [SendMessage remote invite] @ rest)
           \<and> state t = calling \<and> callId t = uuid \<and> remoteUserId t = remote
           \<and> callType t = ct \<and> cancelCallTimer t = timerAfter True remote s
           \<and> (\<exists>ms. callInfo t = M_start # ms)"
  proof -
    assume p: "state s = prepared"
    note cp = call_parts[OF p, where io=io and uuid=uuid and remote=remote and ctype=ctype]
    obtain s9 where
      1: "ext s s9" and
      2: "added s s9 =
           [CallStateChanged calling
              (if ct = video then R_localVideoCall else R_localAudioCall)
              (Some []) (CallPeers remote (userId s)),
            CallEventChanged E_onCalling]
           @ timerEffects True remote s @ mediaStarted s
           @ [SendMessage remote invite]" and
      3: "ext s9 t" and
      6: "trace s9 = trace s @ pre"
      using cp(1,2,3,6)
      unfolding t_def pre_def invite_def ct_def sA_def sB_def sC_def
      by (simp add: envelope_def)
    have a: "added s t = added s s9 @ added s9 t" by (rule added_ext[OF 1 3])
    from 3 obtain r2 where r2: "trace t = trace s9 @ r2" by (auto simp add: ext_def)
    show ?thesis
      using a 2 6 r2 cp(5) call_fields[OF p, of io uuid remote ctype]
      unfolding t_def[symmetric] ct_def[symmetric]
      by (intro conjI exI[of _ "added s9 t"] exI[of _ r2]) simp_all
  qed
  from A B w show ?thesis
    unfolding Let_def t_def pre_def invite_def ct_def sA_def sB_def sC_def
    by (intro conjI impI) simp_all
qed

theorem call_in_order_witness:
  "state busyEngine \<noteq> prepared \<and>
   thrown (call okIO ''id'' 9 None busyEngine) = Some (CallFailed calling) \<and>
   added busyEngine (engine_of (call okIO ''id'' 9 None busyEngine))
     = [CallEventChanged E_stateMismatch] \<and>
   state preparedEngine = prepared \<and>
   state (engine_of (call okIO ''id'' 7 None preparedEngine)) = calling \<and>
   callId (engine_of (call okIO ''id'' 7 None preparedEngine)) = ''id'' \<and>
   remoteUserId (engine_of (call okIO ''id'' 7 None preparedEngine)) = 7 \<and>
   cancelCallTimer (engine_of (call okIO ''id'' 7 None preparedEngine)) = Some (Timer True 1000) \<and>
   take 4 (trace (engine_of (call okIO ''id'' 7 None preparedEngine))) =
     [\<lparr>what = CallStateChanged calling R_localVideoCall (Some []) (CallPeers 7 1),
       seen_state = calling, seen_callId = [], seen_timer = False,
       seen_remoteUserId = 7, seen_callType = video, seen_callInfo = [M_start],
       seen_frameReady = False\<rparr>,
      \<lparr>what = CallEventChanged E_onCalling,
       seen_state = calling, seen_callId = [], seen_timer = False,
       seen_remoteUserId = 7, seen_callType = video, seen_callInfo = [M_start],
       seen_frameReady = False\<rparr>,
      \<lparr>what = SetTimeout True 1000,
       seen_state = calling, seen_callId = ''id'', seen_timer = False,
       seen_remoteUserId = 7, seen_callType = video, seen_callInfo = [M_start],
       seen_frameReady = False\<rparr>,
      \<lparr>what = CreateTracks,
       seen_state = calling, seen_callId = ''id'', seen_timer = True,
       seen_remoteUserId = 7, seen_callType = video, seen_callInfo = [M_start],
       seen_frameReady = False\<rparr>]"
proof -
  have h1: "state busyEngine \<noteq> prepared" "state busyEngine = calling"
    by (simp_all add: busyEngine_def newCallApi_def)
  have h2: "state preparedEngine = prepared"
    by (simp add: preparedEngine_def preparedNoTimeout_def newCallApi_def)
  have v: "trace preparedEngine = []" "callId preparedEngine = []"
     "cancelCallTimer preparedEngine = None" "userId preparedEngine = 1"
     "timerAfter True 7 preparedEngine = Some (Timer True 1000)"
     "callTimeoutMillisecond (prepareConfig preparedEngine) = Some 1000"
     "firstFrameWaittingDisabled (prepareConfig preparedEngine) = None"
     "\<not> receiveRemoteFirstFrameDecoded preparedEngine"
    by (simp_all add: preparedEngine_def preparedNoTimeout_def newCallApi_def timerAfter_def)
  have m: "\<exists>more. mediaStarted preparedEngine = CreateTracks # more"
    by (simp add: mediaStarted_def)
  note a = call_in_order [of busyEngine okIO "''id''" 9 None]
  note b = call_in_order [of preparedEngine okIO "''id''" 7 None]
  from a h1 have "thrown (call okIO ''id'' 9 None busyEngine) = Some (CallFailed calling) \<and>
   added busyEngine (engine_of (call okIO ''id'' 9 None busyEngine))
     = [CallEventChanged E_stateMismatch]"
    by (simp add: added_def effects_def)
  moreover from b h2 m have
    "state (engine_of (call okIO ''id'' 7 None preparedEngine)) = calling \<and>
   callId (engine_of (call okIO ''id'' 7 None preparedEngine)) = ''id'' \<and>
   remoteUserId (engine_of (call okIO ''id'' 7 None preparedEngine)) = 7 \<and>
   cancelCallTimer (engine_of (call okIO ''id'' 7 None preparedEngine)) = Some (Timer True 1000) \<and>
   take 4 (trace (engine_of (call okIO ''id'' 7 None preparedEngine))) =
     [\<lparr>what = CallStateChanged calling R_localVideoCall (Some []) (CallPeers 7 1),
       seen_state = calling, seen_callId = [], seen_timer = False,
       seen_remoteUserId = 7, seen_callType = video, seen_callInfo = [M_start],
       seen_frameReady = False\<rparr>,
      \<lparr>what = CallEventChanged E_onCalling,
       seen_state = calling, seen_callId = [], seen_timer = False,
       seen_remoteUserId = 7, seen_callType = video, seen_callInfo = [M_start],
       seen_frameReady = False\<rparr>,
      \<lparr>what = SetTimeout True 1000,
       seen_state = calling, seen_callId = ''id'', seen_timer = False,
       seen_remoteUserId = 7, seen_callType = video, seen_callInfo = [M_start],
       seen_frameReady = False\<rparr>,
      \<lparr>what = CreateTracks,
       seen_state = calling, seen_callId = ''id'', seen_timer = True,
       seen_remoteUserId = 7, seen_callType = video, seen_callInfo = [M_start],
       seen_frameReady = False\<rparr>]"
    by (auto simp add: v Let_def observe_def timerObservations_def)
  ultimately show ?thesis using h1 h2 by simp
qed












end
